theory Spec2Isabelle
  imports Complex_Main
begin

section \<open>Python values shared by both modules\<close>

text \<open>
  Exceptions are values. \<open>ValueError\<close> carries its message, \<open>KeyError\<close> the label that
  was looked up, \<open>UnboundLocalError\<close> the name of the local variable that was read before
  any assignment to it.
\<close>

datatype pykey = IntKey int | StrKey string

datatype python_error =
    ValueError string
  | KeyError pykey
  | UnboundLocalError string

text \<open>
  Every \<open>raise\<close> statement of the two modules raises a \<open>ValueError\<close>: an exception of
  another class is none that the code raises on purpose.
\<close>

fun is_ValueError :: "python_error \<Rightarrow> bool" where
  "is_ValueError (ValueError m) = True"
| "is_ValueError (KeyError k) = False"
| "is_ValueError (UnboundLocalError v) = False"

text \<open>
  A value of a dynamically typed attribute that the code compares with the members of an
  enumeration \<open>'e\<close>: \<open>None\<close>, a member, or any other object, of which the code only ever
  uses the truth value and the \<open>str()\<close> text. Such an object equals no member.
\<close>

datatype 'e pyobj = PyNone | Member 'e | Other bool string

fun truthy :: "'e pyobj \<Rightarrow> bool" where
  "truthy PyNone = False"
| "truthy (Member m) = True"
| "truthy (Other t s) = t"

fun str_pyobj :: "('e \<Rightarrow> string) \<Rightarrow> 'e pyobj \<Rightarrow> string" where
  "str_pyobj f PyNone = ''None''"
| "str_pyobj f (Member m) = f m"
| "str_pyobj f (Other t s) = s"

text \<open>
  \<open>str.lower()\<close> on ASCII text: the letters \<open>A\<close> to \<open>Z\<close> (codes 65 to 90) get bit 5 set,
  every other character is kept. Text outside ASCII is not modelled.
\<close>

fun lower_char :: "char \<Rightarrow> char" where
  "lower_char (Char b0 b1 b2 b3 b4 b5 b6 b7) =
     (let n = (of_char (Char b0 b1 b2 b3 b4 b5 b6 b7) :: nat)
      in if 65 \<le> n \<and> n \<le> 90 then Char b0 b1 b2 b3 b4 True b6 b7
         else Char b0 b1 b2 b3 b4 b5 b6 b7)"

definition lower :: "string \<Rightarrow> string" where
  "lower s = map lower_char s"

section \<open>model/emissionsfactors.py: enumerations and text recognition\<close>

datatype CO2EQ_SOURCE = AR5_WITH_FEEDBACK | AR4 | SAR
datatype GRID_SOURCE = META | IPCC
datatype GRID_RANGE = MEAN | HIGH | LOW

fun str_CO2EQ_SOURCE :: "CO2EQ_SOURCE \<Rightarrow> string" where
  "str_CO2EQ_SOURCE AR5_WITH_FEEDBACK = ''CO2EQ_SOURCE.AR5_WITH_FEEDBACK''"
| "str_CO2EQ_SOURCE AR4 = ''CO2EQ_SOURCE.AR4''"
| "str_CO2EQ_SOURCE SAR = ''CO2EQ_SOURCE.SAR''"

fun str_GRID_SOURCE :: "GRID_SOURCE \<Rightarrow> string" where
  "str_GRID_SOURCE META = ''GRID_SOURCE.META''"
| "str_GRID_SOURCE IPCC = ''GRID_SOURCE.IPCC''"

fun str_GRID_RANGE :: "GRID_RANGE \<Rightarrow> string" where
  "str_GRID_RANGE MEAN = ''GRID_RANGE.MEAN''"
| "str_GRID_RANGE HIGH = ''GRID_RANGE.HIGH''"
| "str_GRID_RANGE LOW = ''GRID_RANGE.LOW''"

subsection \<open>class CO2Equiv\<close>

record CO2Equiv =
  conversion_source :: "CO2EQ_SOURCE pyobj"
  CH4multiplier :: int
  N2Omultiplier :: int

text \<open>
  \<open>CO2Equiv.__init__\<close>. The parameter defaults to \<open>None\<close>; a falsy argument is replaced
  by \<open>AR5_WITH_FEEDBACK\<close>, and a truthy object that is no member reaches the final
  \<open>raise ValueError\<close>.
\<close>

definition CO2Equiv_init :: "CO2EQ_SOURCE pyobj \<Rightarrow> python_error + CO2Equiv" where
  "CO2Equiv_init cs_arg =
     (let cs = (if truthy cs_arg then cs_arg else Member AR5_WITH_FEEDBACK) in
      if cs = Member AR5_WITH_FEEDBACK then
        Inr \<lparr>conversion_source = cs, CH4multiplier = 34, N2Omultiplier = 298\<rparr>
      else if cs = Member AR4 then
        Inr \<lparr>conversion_source = cs, CH4multiplier = 25, N2Omultiplier = 298\<rparr>
      else if cs = Member SAR then
        Inr \<lparr>conversion_source = cs, CH4multiplier = 21, N2Omultiplier = 310\<rparr>
      else Inl (ValueError (''invalid conversion_source='' @ str_pyobj str_CO2EQ_SOURCE cs)))"

subsection \<open>Text to enumeration member\<close>

text \<open>
  The three functions take the text of a configuration field. Their argument is a Python
  \<open>str\<close>, for which \<open>str(text)\<close> is the text itself.
\<close>

definition string_to_conversion_source :: "string \<Rightarrow> python_error + CO2EQ_SOURCE" where
  "string_to_conversion_source text =
     (if lower text = ''ar5 with feedback'' then Inr AR5_WITH_FEEDBACK
      else if lower text = ''ar5_with_feedback'' then Inr AR5_WITH_FEEDBACK
      else if lower text = ''ar4'' then Inr AR4
      else if lower text = ''sar'' then Inr SAR
      else Inl (ValueError (''invalid conversion name='' @ text)))"

definition string_to_emissions_grid_source :: "string \<Rightarrow> python_error + GRID_SOURCE" where
  "string_to_emissions_grid_source text =
     (if lower text = ''meta-analysis'' then Inr META
      else if lower text = ''meta_analysis'' then Inr META
      else if lower text = ''meta analysis'' then Inr META
      else if lower text = ''ipcc only'' then Inr IPCC
      else if lower text = ''ipcc_only'' then Inr IPCC
      else Inl (ValueError (''invalid grid source name='' @ text)))"

definition string_to_emissions_grid_range :: "string \<Rightarrow> python_error + GRID_RANGE" where
  "string_to_emissions_grid_range text =
     (if lower text = ''mean'' then Inr MEAN
      else if lower text = ''median'' then Inr MEAN
      else if lower text = ''high'' then Inr HIGH
      else if lower text = ''low'' then Inr LOW
      else Inl (ValueError (''invalid grid range name='' @ text)))"

subsection \<open>The accepted texts, as the specification lists them\<close>

text \<open>
  These three tables are not taken from the code: they write down the accepted input
  strings of the specification's section on methodology text recognition, each with the
  member it stands for. The functions above are compared with them.
\<close>

definition spec_conversion_source_texts :: "(string \<times> CO2EQ_SOURCE) list" where
  "spec_conversion_source_texts =
     [(''AR5 with feedback'', AR5_WITH_FEEDBACK), (''AR5_with_feedback'', AR5_WITH_FEEDBACK),
      (''AR4'', AR4), (''SAR'', SAR)]"

definition spec_grid_source_texts :: "(string \<times> GRID_SOURCE) list" where
  "spec_grid_source_texts =
     [(''Meta-Analysis'', META), (''Meta_Analysis'', META), (''Meta Analysis'', META),
      (''IPCC Only'', IPCC), (''IPCC_Only'', IPCC)]"

definition spec_grid_range_texts :: "(string \<times> GRID_RANGE) list" where
  "spec_grid_range_texts =
     [(''Mean'', MEAN), (''Median'', MEAN), (''High'', HIGH), (''Low'', LOW)]"

section \<open>Floating-point cells and pandas tables\<close>

text \<open>
  A cell of a table is a Python \<open>float\<close>: a number, an infinity or \<open>NaN\<close> (which pandas
  also uses for a missing value). A float literal of the source is taken as the decimal
  number it writes. The sign of a zero and the sign of an infinity are not told apart:
  \<open>Fin 0\<close> stands for \<open>0.0\<close> and \<open>-0.0\<close>, \<open>Infinite\<close> for \<open>inf\<close> and \<open>-inf\<close>. Rounding
  and overflow are not modelled: the arithmetic on finite numbers is exact.
\<close>

datatype pyfloat = Fin real | Infinite | NaN

text \<open>
  Error propagation: the first failing statement ends the function with its exception.
\<close>

fun bind_err :: "python_error + 'a \<Rightarrow> ('a \<Rightarrow> python_error + 'b) \<Rightarrow> python_error + 'b" where
  "bind_err (Inl e) f = Inl e"
| "bind_err (Inr x) f = f x"

text \<open>
  A \<open>pandas.DataFrame\<close> with distinct row labels (years, or positions) and column labels.
  \<open>cell\<close> is read only at labels of \<open>index\<close> and \<open>columns\<close>.
\<close>

record dataframe =
  index :: "int list"
  columns :: "string list"
  cell :: "int \<Rightarrow> string \<Rightarrow> pyfloat"

text \<open>\<open>pd.DataFrame(index=..., columns=...)\<close>: every cell is \<open>NaN\<close>.\<close>

definition DataFrame :: "int list \<Rightarrow> string list \<Rightarrow> dataframe" where
  "DataFrame idx cols = \<lparr>index = idx, columns = cols, cell = (\<lambda>y c. NaN)\<rparr>"

text \<open>
  \<open>pd.DataFrame(rows, columns=...)\<close>: the rows are labelled by their positions
  \<open>0, 1, ...\<close>, and the values of a row go to the columns in order. Every row of the
  tables built this way below has one value for each column.
\<close>

definition DataFrame_rows :: "real list list \<Rightarrow> string list \<Rightarrow> dataframe" where
  "DataFrame_rows rows cols =
     \<lparr>index = map int [0..<length rows], columns = cols,
      cell = (\<lambda>i c. if 0 \<le> i \<and> nat i < length rows
                       then (case map_of (zip cols (rows ! nat i)) c of
                               Some v \<Rightarrow> Fin v | None \<Rightarrow> NaN)
                       else NaN)\<rparr>"

text \<open>\<open>df.loc[:, c].values\<close>: the values of column \<open>c\<close> in row order.\<close>

definition column_values :: "dataframe \<Rightarrow> string \<Rightarrow> python_error + pyfloat list" where
  "column_values df c =
     (if c \<in> set (columns df) then Inr (map (\<lambda>i. cell df i c) (index df))
      else Inl (KeyError (StrKey c)))"

text \<open>
  \<open>df.loc[:, c] = values\<close> with an array: the values go to the rows by position, and an
  array of another length than the index is a \<open>ValueError\<close> (its message, which
  pandas completes with the two lengths, is shortened here). A column that does not
  exist yet is appended.
\<close>

definition set_column_values :: "dataframe \<Rightarrow> string \<Rightarrow> pyfloat list \<Rightarrow> python_error + dataframe" where
  "set_column_values df c vs =
     (if length vs \<noteq> length (index df)
      then Inl (ValueError ''Length of values does not match length of index'')
      else Inr (df\<lparr>columns := (if c \<in> set (columns df) then columns df else columns df @ [c]),
                   cell := (\<lambda>y c'. if c' = c
                                     then (case map_of (zip (index df) vs) y of
                                             Some v \<Rightarrow> v | None \<Rightarrow> cell df y c')
                                     else cell df y c')\<rparr>))"

text \<open>\<open>df.loc[:, c] = v\<close> with a scalar: every row of column \<open>c\<close> becomes \<open>v\<close>.\<close>

definition set_column_scalar :: "dataframe \<Rightarrow> string \<Rightarrow> pyfloat \<Rightarrow> dataframe" where
  "set_column_scalar df c v =
     df\<lparr>columns := (if c \<in> set (columns df) then columns df else columns df @ [c]),
        cell := (\<lambda>y c'. if c' = c \<and> y \<in> set (index df) then v else cell df y c')\<rparr>"

text \<open>\<open>df.loc[y, c]\<close>: the cell at row \<open>y\<close> and column \<open>c\<close>, a \<open>KeyError\<close> when either is absent.\<close>

definition loc_cell :: "dataframe \<Rightarrow> int \<Rightarrow> string \<Rightarrow> python_error + pyfloat" where
  "loc_cell df y c =
     (if y \<notin> set (index df) then Inl (KeyError (IntKey y))
      else if c \<notin> set (columns df) then Inl (KeyError (StrKey c))
      else Inr (cell df y c))"

section \<open>model/emissionsfactors.py: grid emission factors\<close>

text \<open>
  The fields of the scenario configuration \<open>ac\<close> that the two modules read. The
  configuration class itself is outside the sources; its fields are inputs here.
\<close>

record advanced_controls =
  emissions_grid_source :: "GRID_SOURCE pyobj"
  emissions_grid_range :: "GRID_RANGE pyobj"
  soln_ref_adoption_basis :: string
  soln_pds_adoption_basis :: string
  pds_adoption_final_percentage :: "(string \<times> pyfloat) list"

record ElectricityGenOnGrid =
  ac :: advanced_controls
  grid_emissions_version :: int

text \<open>\<open>ElectricityGenOnGrid.__init__(self, ac, grid_emissions_version=1)\<close>.\<close>

definition ElectricityGenOnGrid_init :: "advanced_controls \<Rightarrow> int option \<Rightarrow> ElectricityGenOnGrid" where
  "ElectricityGenOnGrid_init a v =
     \<lparr>ac = a, grid_emissions_version = (case v of None \<Rightarrow> 1 | Some n \<Rightarrow> n)\<rparr>"

text \<open>The three embedded tables of World values, by year: medium, high, low.\<close>

definition world_meta_1 :: dataframe where
  "world_meta_1 = DataFrame_rows
     [[2015, 0.580491641, 0.726805942, 0.444419682],
      [2016, 0.580381730, 0.726494196, 0.444511607],
      [2017, 0.580191808, 0.726117383, 0.444508574],
      [2018, 0.579932742, 0.725684840, 0.444422987],
      [2019, 0.579613986, 0.725204693, 0.444265621],
      [2020, 0.581083120, 0.726403172, 0.446005409],
      [2021, 0.578829123, 0.724128766, 0.443771822],
      [2022, 0.578376324, 0.723544325, 0.443450666],
      [2023, 0.577890875, 0.722935374, 0.443088717],
      [2024, 0.577377675, 0.722306095, 0.442691597],
      [2025, 0.576724036, 0.721565698, 0.442124716],
      [2026, 0.576284921, 0.721000946, 0.441811237],
      [2027, 0.575712661, 0.720331282, 0.441336382],
      [2028, 0.575127412, 0.719653850, 0.440843316],
      [2029, 0.574531990, 0.718971040, 0.440335281],
      [2030, 0.573264022, 0.717635960, 0.439134425],
      [2031, 0.573320545, 0.717597727, 0.439285704],
      [2032, 0.572708901, 0.716910953, 0.438749190],
      [2033, 0.572095895, 0.716226301, 0.438207831],
      [2034, 0.571483259, 0.715545242, 0.437663617],
      [2035, 0.570821497, 0.714820866, 0.437064470],
      [2036, 0.570265395, 0.714199285, 0.436573847],
      [2037, 0.569663069, 0.713536875, 0.436031604],
      [2038, 0.569066909, 0.712883028, 0.435493132],
      [2039, 0.568478136, 0.712238796, 0.434959817],
      [2040, 0.567083308, 0.710887186, 0.433521771],
      [2041, 0.567327331, 0.710983152, 0.433913852],
      [2042, 0.566767481, 0.710373641, 0.433403663],
      [2043, 0.566219394, 0.709777559, 0.432903570],
      [2044, 0.565684079, 0.709195799, 0.432414701],
      [2045, 0.565044176, 0.708501694, 0.431829000],
      [2046, 0.564655700, 0.708078732, 0.431475009],
      [2047, 0.564164556, 0.707545143, 0.431026311],
      [2048, 0.563690051, 0.707029331, 0.430593113],
      [2049, 0.563233144, 0.706532169, 0.430176460],
      [2050, 0.563942003, 0.707108074, 0.431018275],
      [2051, 0.562376012, 0.705597348, 0.429397017],
      [2052, 0.561977781, 0.705161518, 0.429036385],
      [2053, 0.561601149, 0.704748013, 0.428696627],
      [2054, 0.561247194, 0.704357833, 0.428378896],
      [2055, 0.560917031, 0.703992021, 0.428084382],
      [2056, 0.560611819, 0.703651663, 0.427814318],
      [2057, 0.560332776, 0.703337903, 0.427569991],
      [2058, 0.560081211, 0.703051332, 0.427353431],
      [2059, 0.559858464, 0.702793863, 0.427165406],
      [2060, 0.559324305, 0.702254712, 0.426636240]]
     [''Year'', ''medium'', ''high'', ''low'']"

definition world_ipcc :: dataframe where
  "world_ipcc = DataFrame_rows
     [[2015, 0.484233480, 0.954301231, 0.415714612],
      [2016, 0.483874688, 0.953705809, 0.415699168],
      [2017, 0.483468578, 0.953091500, 0.415616211],
      [2018, 0.483022234, 0.952462141, 0.415474740],
      [2019, 0.482541828, 0.951821094, 0.415282576],
      [2020, 0.483415642, 0.952177536, 0.416520905],
      [2021, 0.481499413, 0.950514956, 0.414772457],
      [2022, 0.480945957, 0.949854330, 0.414465552],
      [2023, 0.480375891, 0.949191227, 0.414130387],
      [2024, 0.479792370, 0.948527306, 0.413771029],
      [2025, 0.479129875, 0.947838144, 0.413292095],
      [2026, 0.478595824, 0.947202675, 0.412993760],
      [2027, 0.477987474, 0.946544387, 0.412581910],
      [2028, 0.477375135, 0.945890190, 0.412158129],
      [2029, 0.476760605, 0.945241008, 0.411724756],
      [2030, 0.475609145, 0.944163265, 0.410760519],
      [2031, 0.475531330, 0.943960978, 0.410837481],
      [2032, 0.474919397, 0.943331597, 0.410387213],
      [2033, 0.474310926, 0.942710164, 0.409934675],
      [2034, 0.473707024, 0.942097253, 0.409481303],
      [2035, 0.473069620, 0.941464119, 0.408987650],
      [2036, 0.472516993, 0.940899135, 0.408577287],
      [2037, 0.471932749, 0.940314945, 0.408129046],
      [2038, 0.471356841, 0.939741296, 0.407684776],
      [2039, 0.470790068, 0.939178633, 0.407245483],
      [2040, 0.469678045, 0.938292813, 0.406144088],
      [2041, 0.469686967, 0.938087976, 0.406385614],
      [2042, 0.469152097, 0.937560823, 0.405966834],
      [2043, 0.468629289, 0.937046344, 0.405556635],
      [2044, 0.468119233, 0.936544955, 0.405155846],
      [2045, 0.467511264, 0.935948981, 0.404676294],
      [2046, 0.467140087, 0.935583127, 0.404385714],
      [2047, 0.466672339, 0.935123538, 0.404017938],
      [2048, 0.466220042, 0.934678755, 0.403662725],
      [2049, 0.465783884, 0.934249237, 0.403320851],
      [2050, 0.466202378, 0.934415166, 0.403919170],
      [2051, 0.464962806, 0.933437919, 0.402680274],
      [2052, 0.464579339, 0.933057122, 0.402383178],
      [2053, 0.464214935, 0.932693614, 0.402102653],
      [2054, 0.463870396, 0.932347970, 0.401839564],
      [2055, 0.463546558, 0.932020796, 0.401594807],
      [2056, 0.463244299, 0.931712734, 0.401369308],
      [2057, 0.462964542, 0.931424470, 0.401164041],
      [2058, 0.462707434, 0.931155097, 0.400980276],
      [2059, 0.462474856, 0.930907038, 0.400818857],
      [2060, 0.462020537, 0.930512637, 0.400404559]]
     [''Year'', ''medium'', ''high'', ''low'']"

definition world_meta_2 :: dataframe where
  "world_meta_2 = DataFrame_rows
     [[2015, 0.619753649484954, 0.834200994227942, 0.446911398737087],
      [2016, 0.613223327855322, 0.827419241197181, 0.441324423346894],
      [2017, 0.606715005275064, 0.817903147977287, 0.436594799095373],
      [2018, 0.602650482222055, 0.811957311805342, 0.433711588716669],
      [2019, 0.599546311600711, 0.808809196292089, 0.431043861809484],
      [2020, 0.595844101320605, 0.805066315637190, 0.427859783304937],
      [2021, 0.592313613174105, 0.801495614192573, 0.424823161474647],
      [2022, 0.588839905934230, 0.797975220897886, 0.421832598087871],
      [2023, 0.585449295836798, 0.794534135403531, 0.418911809360421],
      [2024, 0.582134106340607, 0.791164960038795, 0.416054306144423],
      [2025, 0.579212349557159, 0.788184425039760, 0.413534464382670],
      [2026, 0.575701698847632, 0.784615063765847, 0.410505236766206],
      [2027, 0.572571412159762, 0.781421736177582, 0.407802618493011],
      [2028, 0.569490331287843, 0.778275031115247, 0.405141116198009],
      [2029, 0.566452830841887, 0.775169515850856, 0.402515970114720],
      [2030, 0.563582610910188, 0.772224408553539, 0.400032800926231],
      [2031, 0.560487575191628, 0.769061765323778, 0.397356976482730],
      [2032, 0.557549996015452, 0.766050030587511, 0.394814811934275],
      [2033, 0.554636302401122, 0.763060441667938, 0.392292329996334],
      [2034, 0.551742154484868, 0.760088796218024, 0.389785854191242],
      [2035, 0.548784376564443, 0.757051944289887, 0.387224226526241],
      [2036, 0.545979252104998, 0.754165935635464, 0.384793649089973],
      [2037, 0.543106698312767, 0.751211316808699, 0.382304463418555],
      [2038, 0.540236787794954, 0.748258161570859, 0.379817005842378],
      [2039, 0.537352597396159, 0.745289123477943, 0.377317616531354],
      [2040, 0.534257808148527, 0.742113543256056, 0.374637411133684],
      [2041, 0.531581023073820, 0.739345510659962, 0.372313849192314],
      [2042, 0.528685258247064, 0.736362655581270, 0.369802465048003],
      [2043, 0.525775521926616, 0.733365101778856, 0.367278694303595],
      [2044, 0.522848765756972, 0.730349877395092, 0.364739945323485],
      [2045, 0.519796747547837, 0.727206616166885, 0.362092302098936],
      [2046, 0.516932341500910, 0.724254851488976, 0.359607432066743],
      [2047, 0.513936894157109, 0.721169405528371, 0.357008750494339],
      [2048, 0.510912853777991, 0.718054985950131, 0.354385243670808],
      [2049, 0.508316537396635, 0.715381773638989, 0.352134907312678],
      [2050, 0.506594921787481, 0.713622488394168, 0.350653654650227],
      [2051, 0.504688929275709, 0.711690195955989, 0.349010631116045],
      [2052, 0.502854324722711, 0.709827677277282, 0.347428887775673],
      [2053, 0.500981466874364, 0.707928699401097, 0.345814547929372],
      [2054, 0.499068430228993, 0.705991414176679, 0.344165978406253],
      [2055, 0.497072403296562, 0.703969699319331, 0.342445358912229],
      [2056, 0.495114656946048, 0.701995050774066, 0.340760075761759],
      [2057, 0.493070596435275, 0.699932787017676, 0.338999924825479],
      [2058, 0.490979702541600, 0.697825838098367, 0.337199902765339],
      [2059, 0.488840556318235, 0.695672846558836, 0.335358807437345],
      [2060, 0.486810301162345, 0.693612676011530, 0.333607332510495]]
     [''Year'', ''medium'', ''high'', ''low'']"

text \<open>The ten region columns, in the order of the source.\<close>

definition REGIONS :: "string list" where
  "REGIONS = [''World'', ''OECD90'', ''Eastern Europe'', ''Asia (Sans Japan)'',
              ''Middle East and Africa'', ''Latin America'', ''China'', ''India'',
              ''EU'', ''USA'']"

text \<open>
  The \<open>if\<close>/\<open>elif\<close> chain that binds the local variable \<open>grid\<close>. It has no \<open>else\<close>:
  \<open>None\<close> stands for \<open>grid\<close> left unbound.
\<close>

definition select_grid :: "ElectricityGenOnGrid \<Rightarrow> dataframe option" where
  "select_grid self =
     (if emissions_grid_source (ac self) = Member IPCC then Some world_ipcc
      else if emissions_grid_source (ac self) = Member META \<and> grid_emissions_version self = 1
           then Some world_meta_1
      else if emissions_grid_source (ac self) = Member META \<and> grid_emissions_version self = 2
           then Some world_meta_2
      else None)"

text \<open>Reading the local variable \<open>grid\<close>.\<close>

definition read_grid :: "dataframe option \<Rightarrow> python_error + dataframe" where
  "read_grid g = (case g of None \<Rightarrow> Inl (UnboundLocalError ''grid'') | Some d \<Rightarrow> Inr d)"

text \<open>
  \<open>conv_ref_grid_CO2eq_per_KWh\<close>. The \<open>lru_cache\<close> decorator only remembers the result of
  this pure function and is left out.
\<close>

definition conv_ref_grid_CO2eq_per_KWh :: "ElectricityGenOnGrid \<Rightarrow> python_error + dataframe" where
  "conv_ref_grid_CO2eq_per_KWh self =
     (let result = DataFrame [2015..2060] REGIONS;
          grid = select_grid self
      in bind_err
           (if emissions_grid_range (ac self) = Member HIGH then
              bind_err (read_grid grid) (\<lambda>g.
              bind_err (column_values g ''high'') (\<lambda>vs.
              set_column_values result ''World'' vs))
            else if emissions_grid_range (ac self) = Member LOW then
              bind_err (read_grid grid) (\<lambda>g.
              bind_err (column_values g ''low'') (\<lambda>vs.
              set_column_values result ''World'' vs))
            else if emissions_grid_range (ac self) = Member MEAN then
              bind_err (read_grid grid) (\<lambda>g.
              bind_err (column_values g ''medium'') (\<lambda>vs.
              set_column_values result ''World'' vs))
            else Inl (ValueError (''Invalid ac.emissions_grid_range ''
                        @ str_pyobj str_GRID_RANGE (emissions_grid_range (ac self)))))
           (\<lambda>result.
              let result = set_column_scalar result ''OECD90'' (Fin 0.454068989);
                  result = set_column_scalar result ''Eastern Europe'' (Fin 0.724747956);
                  result = set_column_scalar result ''Asia (Sans Japan)'' (Fin 0.457658947);
                  result = set_column_scalar result ''Middle East and Africa'' (Fin 0.282243907);
                  result = set_column_scalar result ''Latin America'' (Fin 0.564394712);
                  result = set_column_scalar result ''China'' (Fin 0.535962403);
                  result = set_column_scalar result ''India'' (Fin 0.787832379);
                  result = set_column_scalar result ''EU'' (Fin 0.360629290);
                  result = set_column_scalar result ''USA'' (Fin 0.665071666)
              in Inr result))"

text \<open>\<open>conv_ref_grid_CO2_per_KWh\<close>: it reads nothing of \<open>self\<close>.\<close>

definition conv_ref_grid_CO2_per_KWh :: "ElectricityGenOnGrid \<Rightarrow> dataframe" where
  "conv_ref_grid_CO2_per_KWh self =
     (let result = DataFrame [2015..2060] REGIONS;
          result = set_column_scalar result ''World'' (Fin 0.484512031078339);
          result = set_column_scalar result ''OECD90'' (Fin 0.392126590013504);
          result = set_column_scalar result ''Eastern Europe'' (Fin 0.659977316856384);
          result = set_column_scalar result ''Asia (Sans Japan)'' (Fin 0.385555833578110);
          result = set_column_scalar result ''Middle East and Africa'' (Fin 0.185499981045723);
          result = set_column_scalar result ''Latin America'' (Fin 0.491537630558014);
          result = set_column_scalar result ''China'' (Fin 0.474730312824249);
          result = set_column_scalar result ''India'' (Fin 0.725081980228424);
          result = set_column_scalar result ''EU'' (Fin 0.297016531229019);
          result = set_column_scalar result ''USA'' (Fin 0.594563066959381)
      in result)"

section \<open>Float arithmetic and pandas Series\<close>

text \<open>
  Multiplication and division of floats as numpy computes them elementwise for pandas:
  \<open>NaN\<close> propagates, a nonzero number divided by a zero is an infinity, a zero divided
  by a zero, a zero times an infinity and an infinity divided by an infinity are \<open>NaN\<close>;
  no exception is raised. On finite numbers the result is the exact product or
  quotient (see the remark at \<open>pyfloat\<close>).
\<close>

fun fmul :: "pyfloat \<Rightarrow> pyfloat \<Rightarrow> pyfloat" where
  "fmul NaN y = NaN"
| "fmul x NaN = NaN"
| "fmul (Fin a) (Fin b) = Fin (a * b)"
| "fmul (Fin a) Infinite = (if a = 0 then NaN else Infinite)"
| "fmul Infinite (Fin b) = (if b = 0 then NaN else Infinite)"
| "fmul Infinite Infinite = Infinite"

fun fdiv :: "pyfloat \<Rightarrow> pyfloat \<Rightarrow> pyfloat" where
  "fdiv NaN y = NaN"
| "fdiv x NaN = NaN"
| "fdiv (Fin a) (Fin b) = (if b = 0 then (if a = 0 then NaN else Infinite) else Fin (a / b))"
| "fdiv (Fin a) Infinite = Fin 0"
| "fdiv Infinite (Fin b) = Infinite"
| "fdiv Infinite Infinite = NaN"

text \<open>
  A \<open>pandas.Series\<close> of floats: its labels with their values, in order. A label may
  occur more than once. \<open>pd.Series(values, index=labels)\<close> pairs the labels with the
  values; both lists have the same length wherever the code below builds one.
\<close>

type_synonym series = "(string \<times> pyfloat) list"

definition Series :: "pyfloat list \<Rightarrow> string list \<Rightarrow> series" where
  "Series values labels = zip labels values"

text \<open>
  An arithmetic operator on two Series aligns them by label (an outer join): an entry
  of the left operand meets every entry of the right operand with its label, or gives
  \<open>NaN\<close> when there is none; an entry of the right operand whose label the left operand
  lacks gives \<open>NaN\<close>. pandas may sort the labels of the result; their order is not
  observed below.
\<close>

definition series_op :: "(pyfloat \<Rightarrow> pyfloat \<Rightarrow> pyfloat) \<Rightarrow> series \<Rightarrow> series \<Rightarrow> series" where
  "series_op f a b =
     concat (map (\<lambda>(l, x). case filter (\<lambda>(l', y). l' = l) b of
                               [] \<Rightarrow> [(l, NaN)]
                             | ms \<Rightarrow> map (\<lambda>(l', y). (l, f x y)) ms) a)
     @ map (\<lambda>(l, y). (l, NaN)) (filter (\<lambda>(l, y). l \<notin> set (map fst a)) b)"

text \<open>\<open>s.fillna(v)\<close>: every \<open>NaN\<close> becomes \<open>v\<close>; an infinity is not a missing value.\<close>

definition fillna_cell :: "pyfloat \<Rightarrow> pyfloat \<Rightarrow> pyfloat" where
  "fillna_cell x v = (if x = NaN then v else x)"

definition fillna :: "series \<Rightarrow> pyfloat \<Rightarrow> series" where
  "fillna s v = map (\<lambda>(l, x). (l, fillna_cell x v)) s"

text \<open>
  \<open>df.loc[y]\<close>: the row of label \<open>y\<close> as a Series over the columns, or a \<open>KeyError\<close>.
  The column labels of a table are distinct (\<open>cell\<close> has one value for a label), so
  each of them labels one entry of the row.
\<close>

definition loc_row :: "dataframe \<Rightarrow> int \<Rightarrow> python_error + series" where
  "loc_row df y =
     (if y \<in> set (index df)
      then Inr (map (\<lambda>c. (c, cell df y c)) (remdups (columns df)))
      else Inl (KeyError (IntKey y)))"

text \<open>
  The table \<open>df\<close> with the row \<open>y\<close> set from values by column label: a column without a
  value gets \<open>NaN\<close>; a row label that is new is appended.
\<close>

definition with_row :: "dataframe \<Rightarrow> int \<Rightarrow> (string \<rightharpoonup> pyfloat) \<Rightarrow> dataframe" where
  "with_row df y m =
     df\<lparr>index := (if y \<in> set (index df) then index df else index df @ [y]),
        cell := (\<lambda>y' c. if y' = y \<and> c \<in> set (columns df)
                          then (case m c of Some v \<Rightarrow> v | None \<Rightarrow> NaN)
                          else cell df y' c)\<rparr>"

text \<open>
  \<open>df.loc[y] = s\<close> with a Series: the Series is reindexed to the columns of the table
  (a column that is no label of \<open>s\<close> gets \<open>NaN\<close>, a label that is no column is dropped).
  A Series in which a label occurs twice cannot be reindexed: pandas raises a
  \<open>ValueError\<close>.
\<close>

definition set_row :: "dataframe \<Rightarrow> int \<Rightarrow> series \<Rightarrow> python_error + dataframe" where
  "set_row df y s =
     (if \<not> distinct (map fst s)
      then Inl (ValueError ''cannot reindex on an axis with duplicate labels'')
      else Inr (with_row df y (map_of s)))"

text \<open>
  \<open>a, b = zip(*pairs)\<close>: the first and the second components of the pairs; with no
  pair at all the unpacking fails.
\<close>

definition unzip_pairs :: "('a \<times> 'b) list \<Rightarrow> python_error + ('a list \<times> 'b list)" where
  "unzip_pairs ps =
     (if ps = [] then Inl (ValueError ''not enough values to unpack (expected 2, got 0)'')
      else Inr (map fst ps, map snd ps))"

section \<open>solution/nuclear/__init__.py: adoption basis and helper-table anchors\<close>

text \<open>
  The collaborators are outside the sources. Each is represented by the results of the
  methods that \<open>Nuclear.__init__\<close> calls on it; \<open>'t\<close> is the type of an adoption table.
\<close>

record 't CustomAdoption =
  ca_adoption_data_per_region :: 't
  ca_adoption_trend_per_region :: 't

record 't AdoptionData =
  ad_adoption_data_per_region :: 't
  ad_adoption_trend_per_region :: 't
  ad_adoption_is_single_source :: bool

text \<open>The keyword arguments that the constructor of \<open>HelperTables\<close> receives.\<close>

record 't HelperTables =
  ht_ac :: advanced_controls
  ref_datapoints :: dataframe
  pds_datapoints :: dataframe
  pds_adoption_data_per_region :: 't
  ref_adoption_limits :: dataframe
  pds_adoption_limits :: dataframe
  ref_adoption_data_per_region :: "'t option"
  pds_adoption_trend_per_region :: 't
  pds_adoption_is_single_source :: "bool option"

text \<open>The 2014 base adoption of the ten regions.\<close>

definition ht_ref_adoption_initial :: series where
  "ht_ref_adoption_initial =
     Series [Fin 2417.0, Fin 2067.538596846472, Fin 337.7907984353286, Fin 422.9280547381077,
             Fin 19.434007595770563, Fin 34.286204887889326, Fin 186.72565568543357,
             Fin 81.7511387032866, Fin 911.5844464681002, Fin 822.7334922881862] REGIONS"

text \<open>
  The chain on \<open>soln_pds_adoption_basis\<close>, which binds the three local variables
  \<open>pds_adoption_data_per_region\<close>, \<open>pds_adoption_trend_per_region\<close> and
  \<open>pds_adoption_is_single_source\<close>. It has no \<open>else\<close>: \<open>None\<close> stands for the three
  variables left unbound.
\<close>

definition pds_adoption_basis_chain ::
    "advanced_controls \<Rightarrow> 't AdoptionData \<Rightarrow> 't CustomAdoption \<Rightarrow> ('t \<times> 't \<times> bool option) option" where
  "pds_adoption_basis_chain a ad pds_ca =
     (if soln_pds_adoption_basis a = ''Fully Customized PDS'' then
        Some (ca_adoption_data_per_region pds_ca, ca_adoption_trend_per_region pds_ca, None)
      else if soln_pds_adoption_basis a = ''Existing Adoption Prognostications'' then
        Some (ad_adoption_data_per_region ad, ad_adoption_trend_per_region ad,
              Some (ad_adoption_is_single_source ad))
      else None)"

text \<open>
  \<open>Nuclear.__init__\<close> from the choice of the reference adoption data to the construction
  of \<open>self.ht\<close>. The inputs are the configuration \<open>self.ac\<close>, the two tables of total
  addressable market and the collaborators \<open>self.ad\<close>, \<open>self.pds_ca\<close> and
  \<open>self.ref_ca\<close>, all built earlier in the constructor. The result is what
  \<open>HelperTables\<close> is called with, or the exception that ends the constructor. The
  keyword arguments are evaluated in order, so the first unbound variable read is
  \<open>pds_adoption_data_per_region\<close>.
\<close>

definition Nuclear_init_ht ::
    "advanced_controls \<Rightarrow> dataframe \<Rightarrow> dataframe \<Rightarrow> 't AdoptionData \<Rightarrow> 't CustomAdoption
       \<Rightarrow> 't CustomAdoption \<Rightarrow> python_error + 't HelperTables" where
  "Nuclear_init_ht a ref_tam_per_region pds_tam_per_region ad pds_ca ref_ca =
     (let ref_adoption_data = (if soln_ref_adoption_basis a = ''Custom''
                               then Some (ca_adoption_data_per_region ref_ca) else None);
          pds_adoption = pds_adoption_basis_chain a ad pds_ca
      in bind_err (loc_row ref_tam_per_region 2050) (\<lambda>ref_tam_2050.
         bind_err (loc_row ref_tam_per_region 2014) (\<lambda>ref_tam_2014.
         let ht_ref_adoption_final =
               series_op fmul ref_tam_2050 (series_op fdiv ht_ref_adoption_initial ref_tam_2014);
             ht_ref_datapoints = DataFrame [] REGIONS
         in bind_err (set_row ht_ref_datapoints 2014 ht_ref_adoption_initial) (\<lambda>ht_ref_datapoints.
            bind_err (set_row ht_ref_datapoints 2050 (fillna ht_ref_adoption_final (Fin 0.0)))
              (\<lambda>ht_ref_datapoints.
            let ht_pds_adoption_initial = ht_ref_adoption_initial
            in bind_err (unzip_pairs (pds_adoption_final_percentage a))
                 (\<lambda>(ht_regions, ht_percentages).
               let ht_pds_adoption_final_percentage = Series ht_percentages ht_regions
               in bind_err (loc_row pds_tam_per_region 2050) (\<lambda>pds_tam_2050.
                  let ht_pds_adoption_final =
                        series_op fmul ht_pds_adoption_final_percentage pds_tam_2050;
                      ht_pds_datapoints = DataFrame [] REGIONS
                  in bind_err (set_row ht_pds_datapoints 2014 ht_pds_adoption_initial)
                       (\<lambda>ht_pds_datapoints.
                     bind_err (set_row ht_pds_datapoints 2050 (fillna ht_pds_adoption_final (Fin 0.0)))
                       (\<lambda>ht_pds_datapoints.
                     (case pds_adoption of
                        None \<Rightarrow> Inl (UnboundLocalError ''pds_adoption_data_per_region'')
                      | Some (data, trend, is_single_source) \<Rightarrow>
                          Inr \<lparr>ht_ac = a,
                               ref_datapoints = ht_ref_datapoints,
                               pds_datapoints = ht_pds_datapoints,
                               pds_adoption_data_per_region = data,
                               ref_adoption_limits = ref_tam_per_region,
                               pds_adoption_limits = pds_tam_per_region,
                               ref_adoption_data_per_region = ref_adoption_data,
                               pds_adoption_trend_per_region = trend,
                               pds_adoption_is_single_source = is_single_source\<rparr>))))))))))"

section \<open>Properties of the enumerations and of text recognition\<close>

lemma lower_spec_conversion_source_texts:
  "map (\<lambda>(s, m). (lower s, m)) spec_conversion_source_texts =
     [(''ar5 with feedback'', AR5_WITH_FEEDBACK), (''ar5_with_feedback'', AR5_WITH_FEEDBACK),
      (''ar4'', AR4), (''sar'', SAR)]"
  by (simp add: spec_conversion_source_texts_def lower_def)

lemma lower_spec_grid_source_texts:
  "map (\<lambda>(s, m). (lower s, m)) spec_grid_source_texts =
     [(''meta-analysis'', META), (''meta_analysis'', META), (''meta analysis'', META),
      (''ipcc only'', IPCC), (''ipcc_only'', IPCC)]"
  by (simp add: spec_grid_source_texts_def lower_def)

lemma lower_spec_grid_range_texts:
  "map (\<lambda>(s, m). (lower s, m)) spec_grid_range_texts =
     [(''mean'', MEAN), (''median'', MEAN), (''high'', HIGH), (''low'', LOW)]"
  by (simp add: spec_grid_range_texts_def lower_def)

lemma in_lowered:
  "(s, m) \<in> set xs \<Longrightarrow> (lower s, m) \<in> set (map (\<lambda>(s, m). (lower s, m)) xs)"
  by force

lemma lowered_fst:
  "lower ` fst ` set xs = fst ` set (map (\<lambda>(s, m). (lower s, m)) xs)"
  by force

text \<open>
  C3. A \<open>CO2Equiv\<close> built with \<open>AR5_WITH_FEEDBACK\<close> has the multipliers 34 (CH4) and
  298 (N2O), with \<open>AR4\<close> 25 and 298, with \<open>SAR\<close> 21 and 310; built with no conversion
  source (the default \<open>None\<close>) it takes \<open>AR5_WITH_FEEDBACK\<close> and is the same object as
  the one built with \<open>AR5_WITH_FEEDBACK\<close> given.
\<close>

theorem CO2Equiv_multipliers:
  "CO2Equiv_init (Member AR5_WITH_FEEDBACK) =
     Inr \<lparr>conversion_source = Member AR5_WITH_FEEDBACK, CH4multiplier = 34, N2Omultiplier = 298\<rparr>
   \<and> CO2Equiv_init (Member AR4) =
     Inr \<lparr>conversion_source = Member AR4, CH4multiplier = 25, N2Omultiplier = 298\<rparr>
   \<and> CO2Equiv_init (Member SAR) =
     Inr \<lparr>conversion_source = Member SAR, CH4multiplier = 21, N2Omultiplier = 310\<rparr>
   \<and> CO2Equiv_init PyNone = CO2Equiv_init (Member AR5_WITH_FEEDBACK)"
  by (simp add: CO2Equiv_init_def)

text \<open>
  C5. Recognition ignores case, and every accepted text yields the member the
  specification gives for it: whenever a text equals an accepted text up to case, each
  of the three functions returns that accepted text's member. So the synonyms of one
  member all return that same member.
\<close>

theorem accepted_texts_recognised:
  assumes "(s1, m1) \<in> set spec_conversion_source_texts" and "lower t1 = lower s1"
    and "(s2, m2) \<in> set spec_grid_source_texts" and "lower t2 = lower s2"
    and "(s3, m3) \<in> set spec_grid_range_texts" and "lower t3 = lower s3"
  shows "string_to_conversion_source t1 = Inr m1
       \<and> string_to_emissions_grid_source t2 = Inr m2
       \<and> string_to_emissions_grid_range t3 = Inr m3"
proof (intro conjI)
  from in_lowered [OF assms(1)] assms(2)
  show "string_to_conversion_source t1 = Inr m1"
    unfolding lower_spec_conversion_source_texts
    by (auto simp: string_to_conversion_source_def)
next
  from in_lowered [OF assms(3)] assms(4)
  show "string_to_emissions_grid_source t2 = Inr m2"
    unfolding lower_spec_grid_source_texts
    by (auto simp: string_to_emissions_grid_source_def)
next
  from in_lowered [OF assms(5)] assms(6)
  show "string_to_emissions_grid_range t3 = Inr m3"
    unfolding lower_spec_grid_range_texts
    by (auto simp: string_to_emissions_grid_range_def)
qed

theorem accepted_texts_recognised_witness:
  "string_to_conversion_source ''ar5_WITH_Feedback'' = Inr AR5_WITH_FEEDBACK
   \<and> string_to_emissions_grid_source ''META ANALYSIS'' = Inr META
   \<and> string_to_emissions_grid_range ''mEDIAN'' = Inr MEAN"
proof -
  have a1: "(''AR5_with_feedback'', AR5_WITH_FEEDBACK) \<in> set spec_conversion_source_texts"
    by (simp add: spec_conversion_source_texts_def)
  have b1: "lower ''ar5_WITH_Feedback'' = lower ''AR5_with_feedback''"
    by (simp add: lower_def)
  have a2: "(''Meta Analysis'', META) \<in> set spec_grid_source_texts"
    by (simp add: spec_grid_source_texts_def)
  have b2: "lower ''META ANALYSIS'' = lower ''Meta Analysis''"
    by (simp add: lower_def)
  have a3: "(''Median'', MEAN) \<in> set spec_grid_range_texts"
    by (simp add: spec_grid_range_texts_def)
  have b3: "lower ''mEDIAN'' = lower ''Median''"
    by (simp add: lower_def)
  show ?thesis
    by (rule accepted_texts_recognised [OF a1 b1 a2 b2 a3 b3])
qed

text \<open>
  C6. A text that equals none of the accepted texts up to case is rejected by each of
  the three functions: the result is the \<open>ValueError\<close> whose message ends with the text
  as it was given, never a member.
\<close>

theorem unrecognised_text_rejected:
  "(lower t \<notin> lower ` fst ` set spec_conversion_source_texts \<longrightarrow>
      string_to_conversion_source t = Inl (ValueError (''invalid conversion name='' @ t)))
   \<and> (lower t \<notin> lower ` fst ` set spec_grid_source_texts \<longrightarrow>
      string_to_emissions_grid_source t = Inl (ValueError (''invalid grid source name='' @ t)))
   \<and> (lower t \<notin> lower ` fst ` set spec_grid_range_texts \<longrightarrow>
      string_to_emissions_grid_range t = Inl (ValueError (''invalid grid range name='' @ t)))"
  unfolding lowered_fst lower_spec_conversion_source_texts lower_spec_grid_source_texts
    lower_spec_grid_range_texts
  by (simp add: string_to_conversion_source_def string_to_emissions_grid_source_def
      string_to_emissions_grid_range_def)

theorem unrecognised_text_rejected_witness:
  "lower ''AR6'' \<notin> lower ` fst ` set spec_conversion_source_texts
   \<and> lower ''AR6'' \<notin> lower ` fst ` set spec_grid_source_texts
   \<and> lower ''AR6'' \<notin> lower ` fst ` set spec_grid_range_texts
   \<and> string_to_conversion_source ''AR6'' = Inl (ValueError ''invalid conversion name=AR6'')
   \<and> string_to_emissions_grid_source ''AR6'' = Inl (ValueError ''invalid grid source name=AR6'')
   \<and> string_to_emissions_grid_range ''AR6'' = Inl (ValueError ''invalid grid range name=AR6'')"
proof -
  have n1: "lower ''AR6'' \<notin> lower ` fst ` set spec_conversion_source_texts"
    unfolding lowered_fst lower_spec_conversion_source_texts by (simp add: lower_def)
  have n2: "lower ''AR6'' \<notin> lower ` fst ` set spec_grid_source_texts"
    unfolding lowered_fst lower_spec_grid_source_texts by (simp add: lower_def)
  have n3: "lower ''AR6'' \<notin> lower ` fst ` set spec_grid_range_texts"
    unfolding lowered_fst lower_spec_grid_range_texts by (simp add: lower_def)
  from n1 n2 n3 unrecognised_text_rejected [of "''AR6''"] show ?thesis
    by simp
qed

section \<open>Facts about tables\<close>

lemma upto_as_map: "[a..b] = map (\<lambda>k. a + int k) [0..<nat (b - a + 1)]"
  by (rule nth_equalityI) (simp_all add: nth_upto)

lemma map_of_tabulate:
  "distinct (map k xs) \<Longrightarrow> x \<in> set xs \<Longrightarrow> map_of (map (\<lambda>i. (k i, g i)) xs) (k x) = Some (g x)"
  by (induction xs) (auto simp: image_iff)

lemma map_of_zip_upto:
  assumes "n = nat (b - a + 1)" and "a \<le> y" and "y \<le> b"
  shows "map_of (zip [a..b] (map f (map int [0..<n]))) y = Some (f (y - a))"
proof -
  have z: "zip [a..b] (map f (map int [0..<n])) = map (\<lambda>k. (a + int k, f (int k))) [0..<n]"
    unfolding upto_as_map [of a b] assms(1) [symmetric]
    by (simp add: zip_map_map zip_same_conv_map)
  have d: "distinct (map (\<lambda>k. a + int k) [0..<n])"
    by (simp add: distinct_map inj_on_def)
  have m: "nat (y - a) \<in> set [0..<n]" using assms by auto
  from map_of_tabulate [OF d m, of "\<lambda>k. f (int k)"] assms(2) show ?thesis
    unfolding z by simp
qed

lemma years_index: "y \<in> set [2015..2060] \<longleftrightarrow> 2015 \<le> y \<and> y \<le> 2060"
  by (simp del: upto_rec_numeral)

lemma years_length: "length [2015..2060] = 46"
  by (simp del: upto_rec_numeral)

lemma index_set_column_scalar: "index (set_column_scalar df c v) = index df"
  by (simp add: set_column_scalar_def)

lemma columns_set_column_scalar:
  "columns df = cols \<Longrightarrow> c \<in> set cols \<Longrightarrow> columns (set_column_scalar df c v) = cols"
  by (simp add: set_column_scalar_def)

lemma cell_set_column_scalar:
  "cell (set_column_scalar df c v) y c' =
     (if c' = c \<and> y \<in> set (index df) then v else cell df y c')"
  by (simp add: set_column_scalar_def)

lemma DataFrame_simps:
  "index (DataFrame idx cols) = idx" "columns (DataFrame idx cols) = cols"
  "cell (DataFrame idx cols) y c = NaN"
  by (simp_all add: DataFrame_def)

lemma set_column_values_shape:
  "set_column_values df c vs = Inr w \<Longrightarrow> c \<in> set (columns df) \<Longrightarrow>
   index w = index df \<and> columns w = columns df"
  by (auto simp: set_column_values_def split: if_splits)

lemma World_in_REGIONS: "''World'' \<in> set REGIONS"
  by (simp add: REGIONS_def)

lemma REGIONS_members:
  "''OECD90'' \<in> set REGIONS" "''Eastern Europe'' \<in> set REGIONS"
  "''Asia (Sans Japan)'' \<in> set REGIONS" "''Middle East and Africa'' \<in> set REGIONS"
  "''Latin America'' \<in> set REGIONS" "''China'' \<in> set REGIONS" "''India'' \<in> set REGIONS"
  "''EU'' \<in> set REGIONS" "''USA'' \<in> set REGIONS"
  by (simp_all add: REGIONS_def)

lemma loc_cell_Inr:
  "y \<in> set (index df) \<Longrightarrow> c \<in> set (columns df) \<Longrightarrow> loc_cell df y c = Inr (cell df y c)"
  by (simp add: loc_cell_def)

section \<open>Facts about the grid emission factor tables\<close>

lemma CO2_index: "index (conv_ref_grid_CO2_per_KWh self) = [2015..2060]"
  by (simp add: conv_ref_grid_CO2_per_KWh_def Let_def index_set_column_scalar DataFrame_simps
      del: upto_rec_numeral)

lemma CO2_columns: "columns (conv_ref_grid_CO2_per_KWh self) = REGIONS"
  unfolding conv_ref_grid_CO2_per_KWh_def Let_def
  by (intro columns_set_column_scalar DataFrame_simps World_in_REGIONS REGIONS_members)

lemma CO2_cells:
  assumes "2015 \<le> y" and "y \<le> 2060"
  shows "cell (conv_ref_grid_CO2_per_KWh self) y ''World'' = Fin 0.484512031078339"
    and "cell (conv_ref_grid_CO2_per_KWh self) y ''OECD90'' = Fin 0.392126590013504"
    and "cell (conv_ref_grid_CO2_per_KWh self) y ''Eastern Europe'' = Fin 0.659977316856384"
    and "cell (conv_ref_grid_CO2_per_KWh self) y ''Asia (Sans Japan)'' = Fin 0.385555833578110"
    and "cell (conv_ref_grid_CO2_per_KWh self) y ''Middle East and Africa'' = Fin 0.185499981045723"
    and "cell (conv_ref_grid_CO2_per_KWh self) y ''Latin America'' = Fin 0.491537630558014"
    and "cell (conv_ref_grid_CO2_per_KWh self) y ''China'' = Fin 0.474730312824249"
    and "cell (conv_ref_grid_CO2_per_KWh self) y ''India'' = Fin 0.725081980228424"
    and "cell (conv_ref_grid_CO2_per_KWh self) y ''EU'' = Fin 0.297016531229019"
    and "cell (conv_ref_grid_CO2_per_KWh self) y ''USA'' = Fin 0.594563066959381"
  using assms
  by (simp_all add: conv_ref_grid_CO2_per_KWh_def Let_def index_set_column_scalar
      cell_set_column_scalar DataFrame_simps years_index del: upto_rec_numeral)

lemma DataFrame_rows_index:
  "length rows = n \<Longrightarrow> index (DataFrame_rows rows cols) = map int [0..<n]"
  by (simp add: DataFrame_rows_def)

lemma DataFrame_rows_columns: "columns (DataFrame_rows rows cols) = cols"
  by (simp add: DataFrame_rows_def)

lemma grid_shape:
  "index world_ipcc = map int [0..<46] \<and> columns world_ipcc = [''Year'', ''medium'', ''high'', ''low'']"
  "index world_meta_1 = map int [0..<46] \<and> columns world_meta_1 = [''Year'', ''medium'', ''high'', ''low'']"
  "index world_meta_2 = map int [0..<46] \<and> columns world_meta_2 = [''Year'', ''medium'', ''high'', ''low'']"
  unfolding world_ipcc_def world_meta_1_def world_meta_2_def DataFrame_rows_columns
  by (safe intro!: DataFrame_rows_index) simp_all

lemma select_grid_shape:
  "select_grid self = Some g \<Longrightarrow>
   index g = map int [0..<46] \<and> columns g = [''Year'', ''medium'', ''high'', ''low'']"
  using grid_shape by (auto simp: select_grid_def split: if_splits)

lemma World_step:
  assumes "index g = map int [0..<46]" and "col \<in> set (columns g)"
  shows "\<exists>w. bind_err (read_grid (Some g)) (\<lambda>g.
           bind_err (column_values g col) (\<lambda>vs.
           set_column_values (DataFrame [2015..2060] REGIONS) ''World'' vs)) = Inr w
         \<and> index w = [2015..2060] \<and> columns w = REGIONS
         \<and> (\<forall>y. cell w y ''World'' =
               (case map_of (zip [2015..2060] (map (\<lambda>i. cell g i col) (map int [0..<46]))) y of
                  Some v \<Rightarrow> v | None \<Rightarrow> NaN))"
  using assms
  by (simp add: read_grid_def column_values_def set_column_values_def DataFrame_simps
      years_length World_in_REGIONS del: upto_rec_numeral cong: option.case_cong)

lemma World_step_cell:
  assumes "2015 \<le> y" and "y \<le> 2060"
  shows "(case map_of (zip [2015..2060] (map (\<lambda>i. cell g i col) (map int [0..<46]))) y of
            Some v \<Rightarrow> v | None \<Rightarrow> NaN) = cell g (y - 2015) col"
  using map_of_zip_upto [of 46 2060 2015 y "\<lambda>i. cell g i col"] assms by simp

lemma grid_loc_cell:
  assumes "index g = map int [0..<46]" and "col \<in> set (columns g)"
    and "2015 \<le> y" and "y \<le> 2060"
  shows "loc_cell g (y - 2015) col = Inr (cell g (y - 2015) col)"
proof -
  have "y - 2015 = int (nat (y - 2015))" and "nat (y - 2015) < 46"
    using assms(3,4) by simp_all
  then have "y - 2015 \<in> set (index g)"
    unfolding assms(1) by (metis atLeast0LessThan imageI lessThan_iff set_map set_upt)
  from loc_cell_Inr [OF this assms(2)] show ?thesis .
qed

text \<open>The table returned once the World column is filled: nine scalar columns are set.\<close>

lemma CO2eq_scalars_shape:
  assumes "index w = [2015..2060]" and "columns w = REGIONS"
  shows "index (set_column_scalar (set_column_scalar (set_column_scalar (set_column_scalar
           (set_column_scalar (set_column_scalar (set_column_scalar (set_column_scalar
           (set_column_scalar w ''OECD90'' v1) ''Eastern Europe'' v2) ''Asia (Sans Japan)'' v3)
           ''Middle East and Africa'' v4) ''Latin America'' v5) ''China'' v6) ''India'' v7)
           ''EU'' v8) ''USA'' v9) = [2015..2060]"
    and "columns (set_column_scalar (set_column_scalar (set_column_scalar (set_column_scalar
           (set_column_scalar (set_column_scalar (set_column_scalar (set_column_scalar
           (set_column_scalar w ''OECD90'' v1) ''Eastern Europe'' v2) ''Asia (Sans Japan)'' v3)
           ''Middle East and Africa'' v4) ''Latin America'' v5) ''China'' v6) ''India'' v7)
           ''EU'' v8) ''USA'' v9) = REGIONS"
proof -
  show "index (set_column_scalar (set_column_scalar (set_column_scalar (set_column_scalar
           (set_column_scalar (set_column_scalar (set_column_scalar (set_column_scalar
           (set_column_scalar w ''OECD90'' v1) ''Eastern Europe'' v2) ''Asia (Sans Japan)'' v3)
           ''Middle East and Africa'' v4) ''Latin America'' v5) ''China'' v6) ''India'' v7)
           ''EU'' v8) ''USA'' v9) = [2015..2060]"
    by (simp only: index_set_column_scalar assms(1))
  show "columns (set_column_scalar (set_column_scalar (set_column_scalar (set_column_scalar
           (set_column_scalar (set_column_scalar (set_column_scalar (set_column_scalar
           (set_column_scalar w ''OECD90'' v1) ''Eastern Europe'' v2) ''Asia (Sans Japan)'' v3)
           ''Middle East and Africa'' v4) ''Latin America'' v5) ''China'' v6) ''India'' v7)
           ''EU'' v8) ''USA'' v9) = REGIONS"
    by (intro columns_set_column_scalar assms(2) REGIONS_members)
qed

lemma CO2eq_scalars_cells:
  fixes w :: dataframe and v1 v2 v3 v4 v5 v6 v7 v8 v9 :: pyfloat
  assumes "index w = [2015..2060]" and "2015 \<le> y" and "y \<le> 2060"
  defines "t \<equiv> set_column_scalar (set_column_scalar (set_column_scalar (set_column_scalar
           (set_column_scalar (set_column_scalar (set_column_scalar (set_column_scalar
           (set_column_scalar w ''OECD90'' v1) ''Eastern Europe'' v2) ''Asia (Sans Japan)'' v3)
           ''Middle East and Africa'' v4) ''Latin America'' v5) ''China'' v6) ''India'' v7)
           ''EU'' v8) ''USA'' v9"
  shows "cell t y ''World'' = cell w y ''World''"
    and "cell t y ''OECD90'' = v1" and "cell t y ''Eastern Europe'' = v2"
    and "cell t y ''Asia (Sans Japan)'' = v3" and "cell t y ''Middle East and Africa'' = v4"
    and "cell t y ''Latin America'' = v5" and "cell t y ''China'' = v6"
    and "cell t y ''India'' = v7" and "cell t y ''EU'' = v8" and "cell t y ''USA'' = v9"
  using assms(2,3) unfolding t_def
  by (simp_all add: cell_set_column_scalar index_set_column_scalar assms(1) years_index
      del: upto_rec_numeral)

lemma CO2eq_Inr_shape:
  assumes "conv_ref_grid_CO2eq_per_KWh self = Inr tbl"
  shows "\<exists>w. index w = [2015..2060] \<and> columns w = REGIONS \<and>
           tbl = set_column_scalar (set_column_scalar (set_column_scalar (set_column_scalar
             (set_column_scalar (set_column_scalar (set_column_scalar (set_column_scalar
             (set_column_scalar w ''OECD90'' (Fin 0.454068989))
             ''Eastern Europe'' (Fin 0.724747956)) ''Asia (Sans Japan)'' (Fin 0.457658947))
             ''Middle East and Africa'' (Fin 0.282243907)) ''Latin America'' (Fin 0.564394712))
             ''China'' (Fin 0.535962403)) ''India'' (Fin 0.787832379))
             ''EU'' (Fin 0.360629290)) ''USA'' (Fin 0.665071666)"
proof -
  define W where "W =
    (if emissions_grid_range (ac self) = Member HIGH then
       bind_err (read_grid (select_grid self)) (\<lambda>g.
       bind_err (column_values g ''high'') (\<lambda>vs.
       set_column_values (DataFrame [2015..2060] REGIONS) ''World'' vs))
     else if emissions_grid_range (ac self) = Member LOW then
       bind_err (read_grid (select_grid self)) (\<lambda>g.
       bind_err (column_values g ''low'') (\<lambda>vs.
       set_column_values (DataFrame [2015..2060] REGIONS) ''World'' vs))
     else if emissions_grid_range (ac self) = Member MEAN then
       bind_err (read_grid (select_grid self)) (\<lambda>g.
       bind_err (column_values g ''medium'') (\<lambda>vs.
       set_column_values (DataFrame [2015..2060] REGIONS) ''World'' vs))
     else Inl (ValueError (''Invalid ac.emissions_grid_range ''
                 @ str_pyobj str_GRID_RANGE (emissions_grid_range (ac self)))))"
  have shape: "index w = [2015..2060] \<and> columns w = REGIONS" if "W = Inr w" for w
  proof -
    from that obtain g col vs where
      "set_column_values (DataFrame [2015..2060] REGIONS) ''World'' vs = Inr w"
      unfolding W_def
      by (cases "read_grid (select_grid self)")
         (auto split: if_splits elim!: bind_err.elims)
    from set_column_values_shape [OF this] show ?thesis
      by (simp add: DataFrame_simps World_in_REGIONS del: upto_rec_numeral)
  qed
  from assms obtain w where w: "W = Inr w"
    unfolding conv_ref_grid_CO2eq_per_KWh_def Let_def W_def [symmetric]
    by (cases W) auto
  with assms have "tbl = set_column_scalar (set_column_scalar (set_column_scalar (set_column_scalar
             (set_column_scalar (set_column_scalar (set_column_scalar (set_column_scalar
             (set_column_scalar w ''OECD90'' (Fin 0.454068989))
             ''Eastern Europe'' (Fin 0.724747956)) ''Asia (Sans Japan)'' (Fin 0.457658947))
             ''Middle East and Africa'' (Fin 0.282243907)) ''Latin America'' (Fin 0.564394712))
             ''China'' (Fin 0.535962403)) ''India'' (Fin 0.787832379))
             ''EU'' (Fin 0.360629290)) ''USA'' (Fin 0.665071666)"
    unfolding conv_ref_grid_CO2eq_per_KWh_def Let_def W_def [symmetric]
    by simp
  with shape [OF w] show ?thesis by blast
qed

lemma CO2eq_returns:
  assumes "select_grid self = Some g" and "emissions_grid_range (ac self) = Member r"
  shows "\<exists>tbl. conv_ref_grid_CO2eq_per_KWh self = Inr tbl
           \<and> index tbl = [2015..2060] \<and> columns tbl = REGIONS
           \<and> (\<forall>y. 2015 \<le> y \<and> y \<le> 2060 \<longrightarrow>
                 cell tbl y ''World'' =
                   cell g (y - 2015) (case r of MEAN \<Rightarrow> ''medium'' | HIGH \<Rightarrow> ''high'' | LOW \<Rightarrow> ''low''))"
proof -
  define col where "col = (case r of MEAN \<Rightarrow> ''medium'' | HIGH \<Rightarrow> ''high'' | LOW \<Rightarrow> ''low'')"
  from select_grid_shape [OF assms(1)]
  have ig: "index g = map int [0..<46]" and cg: "col \<in> set (columns g)"
    by (cases r; simp add: col_def)+
  from World_step [OF ig cg] obtain w where
    w: "bind_err (read_grid (Some g)) (\<lambda>g.
          bind_err (column_values g col) (\<lambda>vs.
          set_column_values (DataFrame [2015..2060] REGIONS) ''World'' vs)) = Inr w"
    and iw: "index w = [2015..2060]" and cw: "columns w = REGIONS"
    and ww: "\<And>y. cell w y ''World'' =
               (case map_of (zip [2015..2060] (map (\<lambda>i. cell g i col) (map int [0..<46]))) y of
                  Some v \<Rightarrow> v | None \<Rightarrow> NaN)"
    by blast
  define tbl where "tbl = set_column_scalar (set_column_scalar (set_column_scalar (set_column_scalar
             (set_column_scalar (set_column_scalar (set_column_scalar (set_column_scalar
             (set_column_scalar w ''OECD90'' (Fin 0.454068989))
             ''Eastern Europe'' (Fin 0.724747956)) ''Asia (Sans Japan)'' (Fin 0.457658947))
             ''Middle East and Africa'' (Fin 0.282243907)) ''Latin America'' (Fin 0.564394712))
             ''China'' (Fin 0.535962403)) ''India'' (Fin 0.787832379))
             ''EU'' (Fin 0.360629290)) ''USA'' (Fin 0.665071666)"
  have "conv_ref_grid_CO2eq_per_KWh self = Inr tbl"
    unfolding conv_ref_grid_CO2eq_per_KWh_def Let_def assms
    using w by (cases r) (simp_all add: col_def tbl_def)
  moreover have "index tbl = [2015..2060]" and "columns tbl = REGIONS"
    unfolding tbl_def by (rule CO2eq_scalars_shape [OF iw cw])+
  moreover have "cell tbl y ''World'' = cell g (y - 2015) col" if "2015 \<le> y" "y \<le> 2060" for y
    unfolding tbl_def CO2eq_scalars_cells(1) [OF iw that] ww
    by (rule World_step_cell [OF that])
  ultimately show ?thesis unfolding col_def by blast
qed

lemma CO2eq_bad_range:
  assumes "\<forall>r. emissions_grid_range (ac self) \<noteq> Member r"
  shows "conv_ref_grid_CO2eq_per_KWh self =
           Inl (ValueError (''Invalid ac.emissions_grid_range ''
                  @ str_pyobj str_GRID_RANGE (emissions_grid_range (ac self))))"
  using assms by (simp add: conv_ref_grid_CO2eq_per_KWh_def Let_def)

lemma CO2eq_unbound:
  assumes "select_grid self = None" and "emissions_grid_range (ac self) = Member r"
  shows "conv_ref_grid_CO2eq_per_KWh self = Inl (UnboundLocalError ''grid'')"
  unfolding conv_ref_grid_CO2eq_per_KWh_def Let_def assms
  by (cases r) (simp_all add: read_grid_def)

lemma grid_values:
  "cell world_ipcc 0 ''medium'' = Fin 0.484233480"
  "cell world_ipcc 45 ''medium'' = Fin 0.462020537"
  "cell world_meta_1 0 ''high'' = Fin 0.726805942"
  by (simp_all add: world_ipcc_def world_meta_1_def DataFrame_rows_def)

lemma Year_cell:
  "0 \<le> i \<Longrightarrow> nat i < length rows \<Longrightarrow>
   cell (DataFrame_rows rows (''Year'' # cs)) i ''Year'' =
     (case rows ! nat i of [] \<Rightarrow> NaN | v # _ \<Rightarrow> Fin v)"
  by (simp add: DataFrame_rows_def split: list.split)

lemma rows_by_map:
  assumes "map f rows = map h [2015..2060]" and "0 \<le> i" and "i \<le> 45"
  shows "nat i < length rows \<and> f (rows ! nat i) = h (2015 + i)"
proof -
  from assms(1) have "length rows = length [2015..2060::int]" by (metis length_map)
  then have l: "length rows = 46" by (simp del: upto_rec_numeral)
  with assms(2,3) have n: "nat i < length rows" by simp
  then have "f (rows ! nat i) = map f rows ! nat i" by simp
  also have "\<dots> = h ([2015..2060] ! nat i)"
    unfolding assms(1) using assms(2,3) by (simp del: upto_rec_numeral)
  also have "[2015..2060] ! nat i = 2015 + i"
    using assms(2,3) by (simp add: nth_upto del: upto_rec_numeral)
  finally show ?thesis using n by simp
qed

lemma DataFrame_rows_Year:
  assumes "map (\<lambda>row. case row of [] \<Rightarrow> NaN | v # _ \<Rightarrow> Fin v) rows
             = map (\<lambda>y. Fin (of_int y)) [2015..2060]"
    and "0 \<le> i" and "i \<le> 45"
  shows "cell (DataFrame_rows rows (''Year'' # cs)) i ''Year'' = Fin (of_int (2015 + i))"
  using rows_by_map [OF assms] Year_cell [OF assms(2)] by simp

lemma grid_Year:
  assumes "0 \<le> i" and "i \<le> 45"
  shows "cell world_ipcc i ''Year'' = Fin (of_int (2015 + i))"
    and "cell world_meta_1 i ''Year'' = Fin (of_int (2015 + i))"
    and "cell world_meta_2 i ''Year'' = Fin (of_int (2015 + i))"
  unfolding world_ipcc_def world_meta_1_def world_meta_2_def
  by (rule DataFrame_rows_Year [OF _ assms], simp)+

lemma select_grid_Year:
  assumes "select_grid self = Some g" and "2015 \<le> y" and "y \<le> 2060"
  shows "cell g (y - 2015) ''Year'' = Fin (of_int y)"
proof -
  have i: "0 \<le> y - 2015" "y - 2015 \<le> 45" using assms(2,3) by simp_all
  from assms(1) grid_Year [OF i] show ?thesis
    by (auto simp: select_grid_def split: if_splits)
qed

section \<open>Properties of the grid emission factor tables\<close>

text \<open>
  C7. The table of \<open>conv_ref_grid_CO2_per_KWh\<close> has the years 2015 to 2060 as rows and
  the ten regions as columns, and in every year \<open>y\<close> of that range each region holds its
  one reference scalar (World 0.484512031078339, ..., USA 0.594563066959381), the same
  in every year. The table is the same for any two receivers, whatever their grid
  source, grid range and version.
\<close>

theorem conv_ref_grid_CO2_per_KWh_constant:
  assumes "2015 \<le> y" and "y \<le> 2060"
  shows "index (conv_ref_grid_CO2_per_KWh self) = [2015..2060]
       \<and> columns (conv_ref_grid_CO2_per_KWh self) = REGIONS
       \<and> loc_cell (conv_ref_grid_CO2_per_KWh self) y ''World'' = Inr (Fin 0.484512031078339)
       \<and> loc_cell (conv_ref_grid_CO2_per_KWh self) y ''OECD90'' = Inr (Fin 0.392126590013504)
       \<and> loc_cell (conv_ref_grid_CO2_per_KWh self) y ''Eastern Europe'' = Inr (Fin 0.659977316856384)
       \<and> loc_cell (conv_ref_grid_CO2_per_KWh self) y ''Asia (Sans Japan)'' = Inr (Fin 0.385555833578110)
       \<and> loc_cell (conv_ref_grid_CO2_per_KWh self) y ''Middle East and Africa'' = Inr (Fin 0.185499981045723)
       \<and> loc_cell (conv_ref_grid_CO2_per_KWh self) y ''Latin America'' = Inr (Fin 0.491537630558014)
       \<and> loc_cell (conv_ref_grid_CO2_per_KWh self) y ''China'' = Inr (Fin 0.474730312824249)
       \<and> loc_cell (conv_ref_grid_CO2_per_KWh self) y ''India'' = Inr (Fin 0.725081980228424)
       \<and> loc_cell (conv_ref_grid_CO2_per_KWh self) y ''EU'' = Inr (Fin 0.297016531229019)
       \<and> loc_cell (conv_ref_grid_CO2_per_KWh self) y ''USA'' = Inr (Fin 0.594563066959381)
       \<and> conv_ref_grid_CO2_per_KWh self = conv_ref_grid_CO2_per_KWh self'"
proof -
  have y: "y \<in> set (index (conv_ref_grid_CO2_per_KWh self))"
    unfolding CO2_index years_index using assms by simp
  have c: "c \<in> set REGIONS \<Longrightarrow> loc_cell (conv_ref_grid_CO2_per_KWh self) y c
             = Inr (cell (conv_ref_grid_CO2_per_KWh self) y c)" for c
    using loc_cell_Inr [OF y] by (simp add: CO2_columns)
  have s: "conv_ref_grid_CO2_per_KWh self = conv_ref_grid_CO2_per_KWh self'"
    by (simp add: conv_ref_grid_CO2_per_KWh_def)
  show ?thesis
    by (intro conjI s CO2_index CO2_columns)
       (simp_all only: c World_in_REGIONS REGIONS_members CO2_cells [OF assms])
qed

theorem conv_ref_grid_CO2_per_KWh_constant_witness:
  "loc_cell (conv_ref_grid_CO2_per_KWh
      (ElectricityGenOnGrid_init
         \<lparr>emissions_grid_source = Member META, emissions_grid_range = Member MEAN,
          soln_ref_adoption_basis = ''Default'',
          soln_pds_adoption_basis = ''Fully Customized PDS'',
          pds_adoption_final_percentage = [(''World'', Fin 0)]\<rparr> None)) 2037 ''World''
     = Inr (Fin 0.484512031078339)
   \<and> loc_cell (conv_ref_grid_CO2_per_KWh
      (ElectricityGenOnGrid_init
         \<lparr>emissions_grid_source = Member META, emissions_grid_range = Member MEAN,
          soln_ref_adoption_basis = ''Default'',
          soln_pds_adoption_basis = ''Fully Customized PDS'',
          pds_adoption_final_percentage = [(''World'', Fin 0)]\<rparr> None)) 2037 ''USA''
     = Inr (Fin 0.594563066959381)
   \<and> conv_ref_grid_CO2_per_KWh
      (ElectricityGenOnGrid_init
         \<lparr>emissions_grid_source = Member META, emissions_grid_range = Member MEAN,
          soln_ref_adoption_basis = ''Default'',
          soln_pds_adoption_basis = ''Fully Customized PDS'',
          pds_adoption_final_percentage = [(''World'', Fin 0)]\<rparr> None)
     = conv_ref_grid_CO2_per_KWh
      (ElectricityGenOnGrid_init
         \<lparr>emissions_grid_source = Member IPCC, emissions_grid_range = Member HIGH,
          soln_ref_adoption_basis = ''Default'',
          soln_pds_adoption_basis = ''Fully Customized PDS'',
          pds_adoption_final_percentage = [(''World'', Fin 0)]\<rparr> (Some 2))"
proof -
  have h: "(2015::int) \<le> 2037" "(2037::int) \<le> 2060" by simp_all
  from conv_ref_grid_CO2_per_KWh_constant [OF h] show ?thesis by blast
qed

text \<open>
  C8. In every table that \<open>conv_ref_grid_CO2eq_per_KWh\<close> returns, each of the nine
  regions other than World holds one fixed scalar in every year 2015 to 2060
  (OECD90 0.454068989, ..., India 0.787832379, ...), so its value in 2015 is its value
  in 2060, whatever grid source, grid range and version the receiver has.
\<close>

theorem conv_ref_grid_CO2eq_per_KWh_regions_constant:
  assumes "conv_ref_grid_CO2eq_per_KWh self = Inr tbl" and "2015 \<le> y" and "y \<le> 2060"
  shows "loc_cell tbl y ''OECD90'' = Inr (Fin 0.454068989)
       \<and> loc_cell tbl y ''Eastern Europe'' = Inr (Fin 0.724747956)
       \<and> loc_cell tbl y ''Asia (Sans Japan)'' = Inr (Fin 0.457658947)
       \<and> loc_cell tbl y ''Middle East and Africa'' = Inr (Fin 0.282243907)
       \<and> loc_cell tbl y ''Latin America'' = Inr (Fin 0.564394712)
       \<and> loc_cell tbl y ''China'' = Inr (Fin 0.535962403)
       \<and> loc_cell tbl y ''India'' = Inr (Fin 0.787832379)
       \<and> loc_cell tbl y ''EU'' = Inr (Fin 0.360629290)
       \<and> loc_cell tbl y ''USA'' = Inr (Fin 0.665071666)
       \<and> (c \<in> set REGIONS \<and> c \<noteq> ''World'' \<longrightarrow> loc_cell tbl 2015 c = loc_cell tbl 2060 c)"
proof -
  from CO2eq_Inr_shape [OF assms(1)] obtain w where
    iw: "index w = [2015..2060]" and cw: "columns w = REGIONS"
    and tbl: "tbl = set_column_scalar (set_column_scalar (set_column_scalar (set_column_scalar
             (set_column_scalar (set_column_scalar (set_column_scalar (set_column_scalar
             (set_column_scalar w ''OECD90'' (Fin 0.454068989))
             ''Eastern Europe'' (Fin 0.724747956)) ''Asia (Sans Japan)'' (Fin 0.457658947))
             ''Middle East and Africa'' (Fin 0.282243907)) ''Latin America'' (Fin 0.564394712))
             ''China'' (Fin 0.535962403)) ''India'' (Fin 0.787832379))
             ''EU'' (Fin 0.360629290)) ''USA'' (Fin 0.665071666)"
    by blast
  have it: "index tbl = [2015..2060]" and ct: "columns tbl = REGIONS"
    unfolding tbl by (rule CO2eq_scalars_shape [OF iw cw])+
  have l: "loc_cell tbl z c = Inr (cell tbl z c)"
    if "2015 \<le> z" "z \<le> 2060" "c \<in> set REGIONS" for z c
    using that by (intro loc_cell_Inr) (simp_all add: it ct years_index del: upto_rec_numeral)
  have cells: "cell tbl z ''OECD90'' = Fin 0.454068989"
    "cell tbl z ''Eastern Europe'' = Fin 0.724747956"
    "cell tbl z ''Asia (Sans Japan)'' = Fin 0.457658947"
    "cell tbl z ''Middle East and Africa'' = Fin 0.282243907"
    "cell tbl z ''Latin America'' = Fin 0.564394712"
    "cell tbl z ''China'' = Fin 0.535962403"
    "cell tbl z ''India'' = Fin 0.787832379"
    "cell tbl z ''EU'' = Fin 0.360629290"
    "cell tbl z ''USA'' = Fin 0.665071666"
    if "2015 \<le> z" "z \<le> 2060" for z
    unfolding tbl by (rule CO2eq_scalars_cells(2-10) [OF iw that])+
  have a: "loc_cell tbl z ''OECD90'' = Inr (Fin 0.454068989)
       \<and> loc_cell tbl z ''Eastern Europe'' = Inr (Fin 0.724747956)
       \<and> loc_cell tbl z ''Asia (Sans Japan)'' = Inr (Fin 0.457658947)
       \<and> loc_cell tbl z ''Middle East and Africa'' = Inr (Fin 0.282243907)
       \<and> loc_cell tbl z ''Latin America'' = Inr (Fin 0.564394712)
       \<and> loc_cell tbl z ''China'' = Inr (Fin 0.535962403)
       \<and> loc_cell tbl z ''India'' = Inr (Fin 0.787832379)
       \<and> loc_cell tbl z ''EU'' = Inr (Fin 0.360629290)
       \<and> loc_cell tbl z ''USA'' = Inr (Fin 0.665071666)"
    if z: "2015 \<le> z" "z \<le> 2060" for z
    by (simp only: l [OF z] REGIONS_members cells [OF z] simp_thms)
  have b: "loc_cell tbl 2015 c = loc_cell tbl 2060 c" if "c \<in> set REGIONS" "c \<noteq> ''World''"
  proof -
    from that have "c \<in> {''OECD90'', ''Eastern Europe'', ''Asia (Sans Japan)'',
        ''Middle East and Africa'', ''Latin America'', ''China'', ''India'', ''EU'', ''USA''}"
      by (simp add: REGIONS_def)
    with a [of 2015] a [of 2060] show ?thesis by auto
  qed
  from a [OF assms(2,3)] b show ?thesis by blast
qed

theorem conv_ref_grid_CO2eq_per_KWh_regions_constant_witness:
  "\<exists>tbl. conv_ref_grid_CO2eq_per_KWh
           (ElectricityGenOnGrid_init
              \<lparr>emissions_grid_source = Member META, emissions_grid_range = Member HIGH,
               soln_ref_adoption_basis = ''Default'',
               soln_pds_adoption_basis = ''Fully Customized PDS'',
               pds_adoption_final_percentage = [(''World'', Fin 0)]\<rparr> (Some 1)) = Inr tbl
     \<and> loc_cell tbl 2015 ''India'' = Inr (Fin 0.787832379)
     \<and> loc_cell tbl 2060 ''India'' = Inr (Fin 0.787832379)
     \<and> loc_cell tbl 2015 ''OECD90'' = loc_cell tbl 2060 ''OECD90''"
proof -
  define self where "self = ElectricityGenOnGrid_init
              \<lparr>emissions_grid_source = Member META, emissions_grid_range = Member HIGH,
               soln_ref_adoption_basis = ''Default'',
               soln_pds_adoption_basis = ''Fully Customized PDS'',
               pds_adoption_final_percentage = [(''World'', Fin 0)]\<rparr> (Some 1)"
  have g: "select_grid self = Some world_meta_1"
    and r: "emissions_grid_range (ac self) = Member HIGH"
    by (simp_all add: self_def select_grid_def ElectricityGenOnGrid_init_def)
  from CO2eq_returns [OF g r] obtain tbl where
    tbl: "conv_ref_grid_CO2eq_per_KWh self = Inr tbl" by blast
  have h: "(2015::int) \<le> 2015" "(2015::int) \<le> 2060" "(2015::int) \<le> 2060" "(2060::int) \<le> 2060"
    by simp_all
  have m: "''OECD90'' \<in> set REGIONS \<and> ''OECD90'' \<noteq> ''World''"
    by (simp add: REGIONS_def)
  from conv_ref_grid_CO2eq_per_KWh_regions_constant [OF tbl h(1,2), of "''OECD90''"]
    conv_ref_grid_CO2eq_per_KWh_regions_constant [OF tbl h(3,4), of "''OECD90''"] m tbl
  show ?thesis unfolding self_def by blast
qed

text \<open>
  C2. The World column comes from the embedded table that grid source and version
  select (IPCC: the IPCC table, whatever the version; META with version 1 or 2: the
  first or second META table), from its column medium for \<open>MEAN\<close>, high for \<open>HIGH\<close> and
  low for \<open>LOW\<close>: the World value of year \<open>y\<close> is the value in row \<open>y - 2015\<close> of that
  column, and that row is the table's row for the year \<open>y\<close>. A grid range that is no
  member of \<open>GRID_RANGE\<close> ends in the \<open>ValueError\<close> of the final \<open>else\<close>. For IPCC and
  \<open>MEAN\<close> the World value is 0.484233480 in 2015 and 0.462020537 in 2060; for META,
  \<open>HIGH\<close> and version 1 it is 0.726805942 in 2015 (the literals of the source, without
  any tolerance).
\<close>

theorem conv_ref_grid_CO2eq_per_KWh_World:
  "(emissions_grid_source (ac self) = Member IPCC \<longrightarrow> select_grid self = Some world_ipcc)
   \<and> (emissions_grid_source (ac self) = Member META \<and> grid_emissions_version self = 1 \<longrightarrow>
        select_grid self = Some world_meta_1)
   \<and> (emissions_grid_source (ac self) = Member META \<and> grid_emissions_version self = 2 \<longrightarrow>
        select_grid self = Some world_meta_2)
   \<and> (select_grid self = Some g \<and> emissions_grid_range (ac self) = Member r
        \<and> 2015 \<le> y \<and> y \<le> 2060 \<longrightarrow>
        (\<exists>tbl. conv_ref_grid_CO2eq_per_KWh self = Inr tbl
           \<and> loc_cell tbl y ''World'' =
               loc_cell g (y - 2015)
                 (case r of MEAN \<Rightarrow> ''medium'' | HIGH \<Rightarrow> ''high'' | LOW \<Rightarrow> ''low'')
           \<and> loc_cell g (y - 2015) ''Year'' = Inr (Fin (of_int y))))
   \<and> ((\<forall>r. emissions_grid_range (ac self) \<noteq> Member r) \<longrightarrow>
        conv_ref_grid_CO2eq_per_KWh self =
          Inl (ValueError (''Invalid ac.emissions_grid_range ''
                 @ str_pyobj str_GRID_RANGE (emissions_grid_range (ac self)))))
   \<and> (emissions_grid_source (ac self) = Member IPCC
        \<and> emissions_grid_range (ac self) = Member MEAN \<longrightarrow>
        (\<exists>tbl. conv_ref_grid_CO2eq_per_KWh self = Inr tbl
           \<and> loc_cell tbl 2015 ''World'' = Inr (Fin 0.484233480)
           \<and> loc_cell tbl 2060 ''World'' = Inr (Fin 0.462020537)))
   \<and> (emissions_grid_source (ac self) = Member META
        \<and> emissions_grid_range (ac self) = Member HIGH \<and> grid_emissions_version self = 1 \<longrightarrow>
        (\<exists>tbl. conv_ref_grid_CO2eq_per_KWh self = Inr tbl
           \<and> loc_cell tbl 2015 ''World'' = Inr (Fin 0.726805942)))"
proof -
  have sel: "(emissions_grid_source (ac self) = Member IPCC \<longrightarrow> select_grid self = Some world_ipcc)
   \<and> (emissions_grid_source (ac self) = Member META \<and> grid_emissions_version self = 1 \<longrightarrow>
        select_grid self = Some world_meta_1)
   \<and> (emissions_grid_source (ac self) = Member META \<and> grid_emissions_version self = 2 \<longrightarrow>
        select_grid self = Some world_meta_2)"
    by (simp add: select_grid_def)
  have World: "\<exists>tbl. conv_ref_grid_CO2eq_per_KWh self = Inr tbl
           \<and> (\<forall>z. 2015 \<le> z \<and> z \<le> 2060 \<longrightarrow> loc_cell tbl z ''World'' = Inr (cell g' (z - 2015) col))"
    if g': "select_grid self = Some g'" and r': "emissions_grid_range (ac self) = Member r'"
      and col: "col = (case r' of MEAN \<Rightarrow> ''medium'' | HIGH \<Rightarrow> ''high'' | LOW \<Rightarrow> ''low'')"
    for g' r' col
  proof -
    from CO2eq_returns [OF g' r'] obtain tbl where
      tbl: "conv_ref_grid_CO2eq_per_KWh self = Inr tbl"
      and it: "index tbl = [2015..2060]" and ct: "columns tbl = REGIONS"
      and w: "\<And>z. 2015 \<le> z \<and> z \<le> 2060 \<Longrightarrow> cell tbl z ''World'' = cell g' (z - 2015) col"
      unfolding col by blast
    have "loc_cell tbl z ''World'' = Inr (cell g' (z - 2015) col)" if "2015 \<le> z \<and> z \<le> 2060" for z
      using that w [OF that]
      by (simp add: loc_cell_def it ct World_in_REGIONS years_index del: upto_rec_numeral)
    with tbl show ?thesis by blast
  qed
  have general: "\<exists>tbl. conv_ref_grid_CO2eq_per_KWh self = Inr tbl
           \<and> loc_cell tbl y ''World'' =
               loc_cell g (y - 2015)
                 (case r of MEAN \<Rightarrow> ''medium'' | HIGH \<Rightarrow> ''high'' | LOW \<Rightarrow> ''low'')
           \<and> loc_cell g (y - 2015) ''Year'' = Inr (Fin (of_int y))"
    if g: "select_grid self = Some g" and r: "emissions_grid_range (ac self) = Member r"
      and y: "2015 \<le> y" "y \<le> 2060"
  proof -
    define col where "col = (case r of MEAN \<Rightarrow> ''medium'' | HIGH \<Rightarrow> ''high'' | LOW \<Rightarrow> ''low'')"
    from select_grid_shape [OF g]
    have ig: "index g = map int [0..<46]" and cg: "col \<in> set (columns g)"
      and yg: "''Year'' \<in> set (columns g)"
      by (cases r; simp add: col_def)+
    from World [OF g r col_def] y obtain tbl where
      "conv_ref_grid_CO2eq_per_KWh self = Inr tbl"
      "loc_cell tbl y ''World'' = Inr (cell g (y - 2015) col)" by blast
    moreover note grid_loc_cell [OF ig cg y] grid_loc_cell [OF ig yg y]
    moreover have "cell g (y - 2015) ''Year'' = Fin (of_int y)"
      using select_grid_Year [OF g y] .
    ultimately show ?thesis unfolding col_def by auto
  qed
  have ipcc: "\<exists>tbl. conv_ref_grid_CO2eq_per_KWh self = Inr tbl
           \<and> loc_cell tbl 2015 ''World'' = Inr (Fin 0.484233480)
           \<and> loc_cell tbl 2060 ''World'' = Inr (Fin 0.462020537)"
    if "emissions_grid_source (ac self) = Member IPCC"
      and r: "emissions_grid_range (ac self) = Member MEAN"
  proof -
    from that sel have g: "select_grid self = Some world_ipcc" by blast
    from World [OF g r, of "''medium''"] obtain tbl where
      tbl: "conv_ref_grid_CO2eq_per_KWh self = Inr tbl"
      and w: "\<And>z. 2015 \<le> z \<and> z \<le> 2060 \<Longrightarrow>
                 loc_cell tbl z ''World'' = Inr (cell world_ipcc (z - 2015) ''medium'')"
      by auto
    from w [of 2015] w [of 2060] tbl show ?thesis
      by (simp add: grid_values)
  qed
  have meta: "\<exists>tbl. conv_ref_grid_CO2eq_per_KWh self = Inr tbl
           \<and> loc_cell tbl 2015 ''World'' = Inr (Fin 0.726805942)"
    if "emissions_grid_source (ac self) = Member META" "grid_emissions_version self = 1"
      and r: "emissions_grid_range (ac self) = Member HIGH"
  proof -
    from that sel have g: "select_grid self = Some world_meta_1" by blast
    from World [OF g r, of "''high''"] obtain tbl where
      tbl: "conv_ref_grid_CO2eq_per_KWh self = Inr tbl"
      and w: "\<And>z. 2015 \<le> z \<and> z \<le> 2060 \<Longrightarrow>
                 loc_cell tbl z ''World'' = Inr (cell world_meta_1 (z - 2015) ''high'')"
      by auto
    from w [of 2015] tbl show ?thesis
      by (simp add: grid_values)
  qed
  from sel general CO2eq_bad_range [of self] ipcc meta show ?thesis
    by blast
qed

theorem conv_ref_grid_CO2eq_per_KWh_World_witness:
  "(\<exists>tbl. conv_ref_grid_CO2eq_per_KWh
            (ElectricityGenOnGrid_init
               \<lparr>emissions_grid_source = Member IPCC, emissions_grid_range = Member MEAN,
                soln_ref_adoption_basis = ''Default'',
                soln_pds_adoption_basis = ''Fully Customized PDS'',
                pds_adoption_final_percentage = [(''World'', Fin 0)]\<rparr> (Some 2)) = Inr tbl
      \<and> loc_cell tbl 2015 ''World'' = Inr (Fin 0.484233480)
      \<and> loc_cell tbl 2060 ''World'' = Inr (Fin 0.462020537))
   \<and> (\<exists>tbl. conv_ref_grid_CO2eq_per_KWh
            (ElectricityGenOnGrid_init
               \<lparr>emissions_grid_source = Member IPCC, emissions_grid_range = Member MEAN,
                soln_ref_adoption_basis = ''Default'',
                soln_pds_adoption_basis = ''Fully Customized PDS'',
                pds_adoption_final_percentage = [(''World'', Fin 0)]\<rparr> (Some 2)) = Inr tbl
      \<and> loc_cell tbl 2030 ''World'' = loc_cell world_ipcc (2030 - 2015) ''medium''
      \<and> loc_cell world_ipcc (2030 - 2015) ''Year'' = Inr (Fin 2030))
   \<and> (\<exists>tbl. conv_ref_grid_CO2eq_per_KWh
            (ElectricityGenOnGrid_init
               \<lparr>emissions_grid_source = Member META, emissions_grid_range = Member HIGH,
                soln_ref_adoption_basis = ''Default'',
                soln_pds_adoption_basis = ''Fully Customized PDS'',
                pds_adoption_final_percentage = [(''World'', Fin 0)]\<rparr> None) = Inr tbl
      \<and> loc_cell tbl 2015 ''World'' = Inr (Fin 0.726805942))
   \<and> conv_ref_grid_CO2eq_per_KWh
        (ElectricityGenOnGrid_init
           \<lparr>emissions_grid_source = Member META, emissions_grid_range = PyNone,
            soln_ref_adoption_basis = ''Default'',
            soln_pds_adoption_basis = ''Fully Customized PDS'',
            pds_adoption_final_percentage = [(''World'', Fin 0)]\<rparr> None)
      = Inl (ValueError ''Invalid ac.emissions_grid_range None'')"
proof -
  define S1 where "S1 = ElectricityGenOnGrid_init
               \<lparr>emissions_grid_source = Member IPCC, emissions_grid_range = Member MEAN,
                soln_ref_adoption_basis = ''Default'',
                soln_pds_adoption_basis = ''Fully Customized PDS'',
                pds_adoption_final_percentage = [(''World'', Fin 0)]\<rparr> (Some 2)"
  define S2 where "S2 = ElectricityGenOnGrid_init
               \<lparr>emissions_grid_source = Member META, emissions_grid_range = Member HIGH,
                soln_ref_adoption_basis = ''Default'',
                soln_pds_adoption_basis = ''Fully Customized PDS'',
                pds_adoption_final_percentage = [(''World'', Fin 0)]\<rparr> None"
  define S3 where "S3 = ElectricityGenOnGrid_init
           \<lparr>emissions_grid_source = Member META, emissions_grid_range = PyNone,
            soln_ref_adoption_basis = ''Default'',
            soln_pds_adoption_basis = ''Fully Customized PDS'',
            pds_adoption_final_percentage = [(''World'', Fin 0)]\<rparr> None"
  have s1: "emissions_grid_source (ac S1) = Member IPCC"
    "emissions_grid_range (ac S1) = Member MEAN" "select_grid S1 = Some world_ipcc"
    by (simp_all add: S1_def ElectricityGenOnGrid_init_def select_grid_def)
  have s2: "emissions_grid_source (ac S2) = Member META"
    "emissions_grid_range (ac S2) = Member HIGH" "grid_emissions_version S2 = 1"
    by (simp_all add: S2_def ElectricityGenOnGrid_init_def)
  have s3: "\<forall>r. emissions_grid_range (ac S3) \<noteq> Member r"
    "str_pyobj str_GRID_RANGE (emissions_grid_range (ac S3)) = ''None''"
    by (simp_all add: S3_def ElectricityGenOnGrid_init_def)
  have y: "(2015::int) \<le> 2030" "(2030::int) \<le> 2060" by simp_all
  from conv_ref_grid_CO2eq_per_KWh_World [of S1 world_ipcc MEAN 2030] s1 y
  have "(\<exists>tbl. conv_ref_grid_CO2eq_per_KWh S1 = Inr tbl
           \<and> loc_cell tbl 2015 ''World'' = Inr (Fin 0.484233480)
           \<and> loc_cell tbl 2060 ''World'' = Inr (Fin 0.462020537))"
    and "(\<exists>tbl. conv_ref_grid_CO2eq_per_KWh S1 = Inr tbl
      \<and> loc_cell tbl 2030 ''World'' = loc_cell world_ipcc (2030 - 2015) ''medium''
      \<and> loc_cell world_ipcc (2030 - 2015) ''Year'' = Inr (Fin 2030))"
    by simp_all
  moreover from conv_ref_grid_CO2eq_per_KWh_World [of S2] s2
  have "\<exists>tbl. conv_ref_grid_CO2eq_per_KWh S2 = Inr tbl
      \<and> loc_cell tbl 2015 ''World'' = Inr (Fin 0.726805942)"
    by blast
  moreover from conv_ref_grid_CO2eq_per_KWh_World [of S3] s3
  have "conv_ref_grid_CO2eq_per_KWh S3 = Inl (ValueError ''Invalid ac.emissions_grid_range None'')"
    by simp
  ultimately show ?thesis unfolding S1_def S2_def S3_def by blast
qed

text \<open>
  C10, as the code has it. When the chain that binds \<open>grid\<close> takes no branch (the
  source is META with a version other than 1 and 2, or the source is no member of
  \<open>GRID_SOURCE\<close>) and the grid range is a member of \<open>GRID_RANGE\<close>, the range step reads
  the unbound \<open>grid\<close> and the call ends with \<open>UnboundLocalError\<close>. The restriction to a
  member range is needed: for any other range the final \<open>else\<close> raises its \<open>ValueError\<close>
  and \<open>grid\<close> is never read.
\<close>

theorem conv_ref_grid_CO2eq_per_KWh_unbound_grid:
  assumes "(emissions_grid_source (ac self) = Member META
              \<and> grid_emissions_version self \<noteq> 1 \<and> grid_emissions_version self \<noteq> 2)
           \<or> (\<forall>s. emissions_grid_source (ac self) \<noteq> Member s)"
    and "emissions_grid_range (ac self) = Member r"
  shows "conv_ref_grid_CO2eq_per_KWh self = Inl (UnboundLocalError ''grid'')"
proof -
  from assms(1) have "select_grid self = None"
    by (auto simp: select_grid_def)
  from CO2eq_unbound [OF this assms(2)] show ?thesis .
qed

theorem conv_ref_grid_CO2eq_per_KWh_unbound_grid_witness:
  "conv_ref_grid_CO2eq_per_KWh
     \<lparr>ac = \<lparr>emissions_grid_source = Member META, emissions_grid_range = Member LOW,
            soln_ref_adoption_basis = ''Default'',
            soln_pds_adoption_basis = ''Fully Customized PDS'',
            pds_adoption_final_percentage = [(''World'', Fin 0)]\<rparr>,
      grid_emissions_version = 3\<rparr> = Inl (UnboundLocalError ''grid'')
   \<and> conv_ref_grid_CO2eq_per_KWh
     \<lparr>ac = \<lparr>emissions_grid_source = PyNone, emissions_grid_range = Member MEAN,
            soln_ref_adoption_basis = ''Default'',
            soln_pds_adoption_basis = ''Fully Customized PDS'',
            pds_adoption_final_percentage = [(''World'', Fin 0)]\<rparr>,
      grid_emissions_version = 1\<rparr> = Inl (UnboundLocalError ''grid'')"
  by (intro conjI; rule conv_ref_grid_CO2eq_per_KWh_unbound_grid; simp)

text \<open>
  C10 as stated fails: with the source META and version 3, and a grid range that is no
  member (\<open>None\<close>), the call ends with the \<open>ValueError\<close> of the range step, not with
  \<open>UnboundLocalError\<close>.
\<close>

theorem conv_ref_grid_CO2eq_per_KWh_unbound_grid_counterexample:
  "emissions_grid_source (ac
     \<lparr>ac = \<lparr>emissions_grid_source = Member META, emissions_grid_range = PyNone,
            soln_ref_adoption_basis = ''Default'',
            soln_pds_adoption_basis = ''Fully Customized PDS'',
            pds_adoption_final_percentage = [(''World'', Fin 0)]\<rparr>,
      grid_emissions_version = 3\<rparr>) = Member META
   \<and> grid_emissions_version
     \<lparr>ac = \<lparr>emissions_grid_source = Member META, emissions_grid_range = PyNone,
            soln_ref_adoption_basis = ''Default'',
            soln_pds_adoption_basis = ''Fully Customized PDS'',
            pds_adoption_final_percentage = [(''World'', Fin 0)]\<rparr>,
      grid_emissions_version = 3\<rparr> \<notin> {1, 2}
   \<and> conv_ref_grid_CO2eq_per_KWh
     \<lparr>ac = \<lparr>emissions_grid_source = Member META, emissions_grid_range = PyNone,
            soln_ref_adoption_basis = ''Default'',
            soln_pds_adoption_basis = ''Fully Customized PDS'',
            pds_adoption_final_percentage = [(''World'', Fin 0)]\<rparr>,
      grid_emissions_version = 3\<rparr>
       = Inl (ValueError ''Invalid ac.emissions_grid_range None'')
   \<and> conv_ref_grid_CO2eq_per_KWh
     \<lparr>ac = \<lparr>emissions_grid_source = Member META, emissions_grid_range = PyNone,
            soln_ref_adoption_basis = ''Default'',
            soln_pds_adoption_basis = ''Fully Customized PDS'',
            pds_adoption_final_percentage = [(''World'', Fin 0)]\<rparr>,
      grid_emissions_version = 3\<rparr> \<noteq> Inl (UnboundLocalError ''grid'')"
  by (simp add: conv_ref_grid_CO2eq_per_KWh_def Let_def)

section \<open>Facts about Series and the helper-table anchors\<close>

lemma filter_label:
  "distinct (map fst b) \<Longrightarrow>
   filter (\<lambda>(l', y). l' = l) b = (case map_of b l of None \<Rightarrow> [] | Some y \<Rightarrow> [(l, y)])"
proof (induction b)
  case Nil
  then show ?case by simp
next
  case (Cons e b)
  obtain k v where e: "e = (k, v)" by (cases e)
  from Cons.prems have k: "k \<notin> fst ` set b" and d: "distinct (map fst b)"
    by (simp_all add: e)
  show ?case
  proof (cases "k = l")
    case True
    with k have "map_of b l = None" by (simp add: map_of_eq_None_iff)
    with Cons.IH [OF d] True show ?thesis by (simp add: e)
  next
    case False
    with Cons.IH [OF d] show ?thesis by (simp add: e)
  qed
qed

lemma series_op_distinct:
  assumes "distinct (map fst b)"
  shows "series_op f a b =
     map (\<lambda>(l, x). (l, case map_of b l of None \<Rightarrow> NaN | Some y \<Rightarrow> f x y)) a
     @ map (\<lambda>(l, y). (l, NaN)) (filter (\<lambda>(l, y). l \<notin> set (map fst a)) b)"
proof -
  have "(case filter (\<lambda>(l', y). l' = l) b of
           [] \<Rightarrow> [(l, NaN)] | ms \<Rightarrow> map (\<lambda>(l', y). (l, f x y)) ms)
        = [(l, case map_of b l of None \<Rightarrow> NaN | Some y \<Rightarrow> f x y)]" for l x
    unfolding filter_label [OF assms] by (cases "map_of b l") simp_all
  then have "concat (map (\<lambda>(l, x). case filter (\<lambda>(l', y). l' = l) b of
                               [] \<Rightarrow> [(l, NaN)]
                             | ms \<Rightarrow> map (\<lambda>(l', y). (l, f x y)) ms) a)
      = map (\<lambda>(l, x). (l, case map_of b l of None \<Rightarrow> NaN | Some y \<Rightarrow> f x y)) a"
    by (induction a) (simp_all add: case_prod_beta)
  then show ?thesis by (simp add: series_op_def)
qed

lemma series_op_labels:
  assumes "distinct (map fst a)" and "distinct (map fst b)"
  shows "distinct (map fst (series_op f a b))"
proof -
  have 1: "map fst (map (\<lambda>(l, x). (l, case map_of b l of None \<Rightarrow> NaN | Some y \<Rightarrow> f x y)) a)
             = map fst a"
    by (induction a) (simp_all add: case_prod_beta)
  have 2: "map fst (map (\<lambda>(l, y). (l, NaN)) (filter (\<lambda>(l, y). l \<notin> set (map fst a)) b))
             = filter (\<lambda>l. l \<notin> set (map fst a)) (map fst b)"
    by (induction b) (simp_all add: case_prod_beta)
  show ?thesis
    unfolding series_op_distinct [OF assms(2)] map_append 1 2
    using assms by auto
qed

lemma map_of_keyed:
  "map_of (map (\<lambda>(l, x). (l, h l x)) a) l = map_option (h l) (map_of a l)"
  by (induction a) (auto simp: case_prod_beta)

lemma map_of_rest:
  "map_of (map (\<lambda>(l, y). (l, NaN)) (filter (\<lambda>(l, y). l \<notin> set (map fst a)) b)) l
     = (if map_of a l = None then map_option (\<lambda>y. NaN) (map_of b l) else None)"
proof -
  have n: "l' \<notin> set (map fst a) \<longleftrightarrow> map_of a l' = None" for l'
    by (simp add: map_of_eq_None_iff)
  show ?thesis
    unfolding n by (induction b) (auto simp: case_prod_beta)
qed

lemma series_op_lookup:
  assumes "distinct (map fst b)"
  shows "map_of (series_op f a b) l =
     (case (map_of a l, map_of b l) of
        (None, None) \<Rightarrow> None
      | (Some x, Some y) \<Rightarrow> Some (f x y)
      | _ \<Rightarrow> Some NaN)"
  unfolding series_op_distinct [OF assms] map_of_append
    map_of_keyed [of "\<lambda>l x. case map_of b l of None \<Rightarrow> NaN | Some y \<Rightarrow> f x y"] map_of_rest
  by (cases "map_of a l"; cases "map_of b l") (simp_all add: map_add_def)

lemma fillna_labels: "map fst (fillna s v) = map fst s"
  by (induction s) (simp_all add: fillna_def case_prod_beta)

lemma fillna_lookup: "map_of (fillna s v) l = map_option (\<lambda>x. fillna_cell x v) (map_of s l)"
  unfolding fillna_def by (rule map_of_keyed [of "\<lambda>l x. fillna_cell x v"])

lemma row_labels: "distinct (map fst (map (\<lambda>c. (c, g c)) (remdups cs)))"
  by (simp add: comp_def)

lemma row_lookup:
  "map_of (map (\<lambda>c. (c, g c)) (remdups cs)) l = (if l \<in> set cs then Some (g l) else None)"
  by (induction cs) auto

lemma Series_unzip: "Series (map snd ps) (map fst ps) = ps"
  by (simp add: Series_def zip_map_fst_snd)

lemma initial_labels: "map fst ht_ref_adoption_initial = REGIONS"
  by (simp add: ht_ref_adoption_initial_def Series_def REGIONS_def)

lemma distinct_REGIONS: "distinct REGIONS"
  by (simp add: REGIONS_def)

lemma initial_values:
  "map_of ht_ref_adoption_initial ''World'' = Some (Fin 2417.0)"
  "map_of ht_ref_adoption_initial ''OECD90'' = Some (Fin 2067.538596846472)"
  "map_of ht_ref_adoption_initial ''Eastern Europe'' = Some (Fin 337.7907984353286)"
  "map_of ht_ref_adoption_initial ''Asia (Sans Japan)'' = Some (Fin 422.9280547381077)"
  "map_of ht_ref_adoption_initial ''Middle East and Africa'' = Some (Fin 19.434007595770563)"
  "map_of ht_ref_adoption_initial ''Latin America'' = Some (Fin 34.286204887889326)"
  "map_of ht_ref_adoption_initial ''China'' = Some (Fin 186.72565568543357)"
  "map_of ht_ref_adoption_initial ''India'' = Some (Fin 81.7511387032866)"
  "map_of ht_ref_adoption_initial ''EU'' = Some (Fin 911.5844464681002)"
  "map_of ht_ref_adoption_initial ''USA'' = Some (Fin 822.7334922881862)"
  by (simp_all add: REGIONS_def ht_ref_adoption_initial_def Series_def)

lemma initial_positive_all:
  "list_all (\<lambda>r. case map_of ht_ref_adoption_initial r of Some (Fin a) \<Rightarrow> 0 < a | _ \<Rightarrow> False) REGIONS"
  unfolding REGIONS_def by (simp add: initial_values)

lemma initial_positive:
  assumes "r \<in> set REGIONS"
  shows "\<exists>a. map_of ht_ref_adoption_initial r = Some (Fin a) \<and> 0 < a"
proof -
  from initial_positive_all assms
  have "case map_of ht_ref_adoption_initial r of Some (Fin a) \<Rightarrow> 0 < a | _ \<Rightarrow> False"
    by (simp add: list_all_iff)
  then show ?thesis
    by (cases "map_of ht_ref_adoption_initial r"; simp split: pyfloat.splits)
qed

lemma datapoints_loc_cell:
  assumes "r \<in> set REGIONS"
  shows "loc_cell (with_row (with_row (DataFrame [] REGIONS) 2014 m1) 2050 m2) 2014 r
           = Inr (case m1 r of Some v \<Rightarrow> v | None \<Rightarrow> NaN)"
    and "loc_cell (with_row (with_row (DataFrame [] REGIONS) 2014 m1) 2050 m2) 2050 r
           = Inr (case m2 r of Some v \<Rightarrow> v | None \<Rightarrow> NaN)"
  using assms by (simp_all add: loc_cell_def with_row_def DataFrame_def)

lemma set_rows:
  assumes "distinct (map fst s1)" and "distinct (map fst s2)"
  shows "bind_err (set_row (DataFrame [] REGIONS) 2014 s1) (\<lambda>d. bind_err (set_row d 2050 s2) k)
           = k (with_row (with_row (DataFrame [] REGIONS) 2014 (map_of s1)) 2050 (map_of s2))"
  using assms by (simp add: set_row_def)

lemma set_rows_duplicate:
  assumes "distinct (map fst s1)" and "\<not> distinct (map fst s2)"
  shows "bind_err (set_row (DataFrame [] REGIONS) 2014 s1) (\<lambda>d. bind_err (set_row d 2050 s2) k)
           = Inl (ValueError ''cannot reindex on an axis with duplicate labels'')"
  using assms by (simp add: set_row_def)

lemma anchor_series_labels:
  "distinct (map fst ht_ref_adoption_initial)"
  "distinct (map fst (fillna (series_op fmul (map (\<lambda>c. (c, g c)) (remdups cs))
                       (series_op fdiv ht_ref_adoption_initial (map (\<lambda>c. (c, h c)) (remdups cs'))))
                     v))"
  "distinct (map fst ps) \<longleftrightarrow>
     distinct (map fst (fillna (series_op fmul ps (map (\<lambda>c. (c, g c)) (remdups cs))) v))"
proof -
  show i: "distinct (map fst ht_ref_adoption_initial)"
    by (simp only: initial_labels distinct_REGIONS)
  show "distinct (map fst (fillna (series_op fmul (map (\<lambda>c. (c, g c)) (remdups cs))
                       (series_op fdiv ht_ref_adoption_initial (map (\<lambda>c. (c, h c)) (remdups cs'))))
                     v))"
    unfolding fillna_labels
    by (intro series_op_labels row_labels i)
  have l: "map fst (series_op fmul ps (map (\<lambda>c. (c, g c)) (remdups cs)))
        = map fst ps @ filter (\<lambda>l. l \<notin> set (map fst ps)) (remdups cs)"
  proof -
    have 1: "map fst (map (\<lambda>(l, x). (l, k l x)) ps) = map fst ps" for k :: "string \<Rightarrow> pyfloat \<Rightarrow> pyfloat"
      by (induction ps) (simp_all add: case_prod_beta)
    have 2: "map fst (map (\<lambda>(l, y). (l, NaN)) (filter (\<lambda>(l, y). l \<notin> set (map fst ps)) b))
               = filter (\<lambda>l. l \<notin> set (map fst ps)) (map fst b)" for b :: series
      by (induction b) (simp_all add: case_prod_beta)
    show ?thesis
      unfolding series_op_distinct [OF row_labels] map_append 2
        1 [of "\<lambda>l x. case map_of (map (\<lambda>c. (c, g c)) (remdups cs)) l of
                       None \<Rightarrow> NaN | Some y \<Rightarrow> fmul x y"]
      by (simp add: comp_def)
  qed
  show "distinct (map fst ps) \<longleftrightarrow>
     distinct (map fst (fillna (series_op fmul ps (map (\<lambda>c. (c, g c)) (remdups cs))) v))"
    unfolding fillna_labels l by auto
qed

lemma Nuclear_init_ht_eval:
  assumes "2050 \<in> set (index ref_tam)" and "2014 \<in> set (index ref_tam)"
    and "2050 \<in> set (index pds_tam)" and "pds_adoption_final_percentage a \<noteq> []"
  shows "Nuclear_init_ht a ref_tam pds_tam ad pds_ca ref_ca =
     (if \<not> distinct (map fst (pds_adoption_final_percentage a))
      then Inl (ValueError ''cannot reindex on an axis with duplicate labels'')
      else case pds_adoption_basis_chain a ad pds_ca of
        None \<Rightarrow> Inl (UnboundLocalError ''pds_adoption_data_per_region'')
      | Some (d, t, s) \<Rightarrow>
          Inr \<lparr>ht_ac = a,
               ref_datapoints =
                 with_row (with_row (DataFrame [] REGIONS) 2014 (map_of ht_ref_adoption_initial)) 2050
                   (map_of (fillna (series_op fmul
                                      (map (\<lambda>c. (c, cell ref_tam 2050 c)) (remdups (columns ref_tam)))
                                      (series_op fdiv ht_ref_adoption_initial
                                         (map (\<lambda>c. (c, cell ref_tam 2014 c)) (remdups (columns ref_tam)))))
                              (Fin 0))),
               pds_datapoints =
                 with_row (with_row (DataFrame [] REGIONS) 2014 (map_of ht_ref_adoption_initial)) 2050
                   (map_of (fillna (series_op fmul (pds_adoption_final_percentage a)
                                      (map (\<lambda>c. (c, cell pds_tam 2050 c)) (remdups (columns pds_tam))))
                              (Fin 0))),
               pds_adoption_data_per_region = d,
               ref_adoption_limits = ref_tam,
               pds_adoption_limits = pds_tam,
               ref_adoption_data_per_region =
                 (if soln_ref_adoption_basis a = ''Custom''
                  then Some (ca_adoption_data_per_region ref_ca) else None),
               pds_adoption_trend_per_region = t,
               pds_adoption_is_single_source = s\<rparr>)"
proof (cases "distinct (map fst (pds_adoption_final_percentage a))")
  case True
  note d = anchor_series_labels(3) [THEN iffD1, OF True]
  show ?thesis
    using assms True
    by (simp add: Nuclear_init_ht_def loc_row_def unzip_pairs_def Let_def Series_unzip
        set_rows [OF anchor_series_labels(1) anchor_series_labels(2)]
        set_rows [OF anchor_series_labels(1) d]
        split: option.split)
next
  case False
  with anchor_series_labels(3)
  have d: "\<not> distinct (map fst (fillna (series_op fmul (pds_adoption_final_percentage a)
              (map (\<lambda>c. (c, cell pds_tam 2050 c)) (remdups (columns pds_tam)))) (Fin 0)))"
    by blast
  show ?thesis
    using assms False
    by (simp add: Nuclear_init_ht_def loc_row_def unzip_pairs_def Let_def Series_unzip
        set_rows [OF anchor_series_labels(1) anchor_series_labels(2)]
        set_rows_duplicate [OF anchor_series_labels(1) d])
qed

lemma ref_anchor_cell:
  assumes "r \<in> set REGIONS" and "map_of ht_ref_adoption_initial r = Some (Fin b)"
  shows "(case map_of (fillna (series_op fmul
                  (map (\<lambda>c. (c, cell ref_tam 2050 c)) (remdups (columns ref_tam)))
                  (series_op fdiv ht_ref_adoption_initial
                     (map (\<lambda>c. (c, cell ref_tam 2014 c)) (remdups (columns ref_tam)))))
               (Fin 0)) r of Some v \<Rightarrow> v | None \<Rightarrow> NaN)
         = (if r \<in> set (columns ref_tam)
            then fillna_cell (fmul (cell ref_tam 2050 r) (fdiv (Fin b) (cell ref_tam 2014 r))) (Fin 0)
            else Fin 0)"
proof -
  let ?R50 = "map (\<lambda>c. (c, cell ref_tam 2050 c)) (remdups (columns ref_tam))"
  let ?R14 = "map (\<lambda>c. (c, cell ref_tam 2014 c)) (remdups (columns ref_tam))"
  have inner: "map_of (series_op fdiv ht_ref_adoption_initial ?R14) r =
      Some (if r \<in> set (columns ref_tam) then fdiv (Fin b) (cell ref_tam 2014 r) else NaN)"
    unfolding series_op_lookup [OF row_labels] row_lookup assms(2) by simp
  have dl: "distinct (map fst (series_op fdiv ht_ref_adoption_initial ?R14))"
    by (intro series_op_labels row_labels anchor_series_labels(1))
  have outer: "map_of (series_op fmul ?R50 (series_op fdiv ht_ref_adoption_initial ?R14)) r =
      Some (if r \<in> set (columns ref_tam)
            then fmul (cell ref_tam 2050 r) (fdiv (Fin b) (cell ref_tam 2014 r)) else NaN)"
    unfolding series_op_lookup [OF dl] row_lookup inner by simp
  show ?thesis
    unfolding fillna_lookup outer by (simp add: fillna_cell_def)
qed

lemma pds_anchor_cell:
  assumes "r \<in> set (columns pds_tam)"
  shows "(case map_of (fillna (series_op fmul pct
                  (map (\<lambda>c. (c, cell pds_tam 2050 c)) (remdups (columns pds_tam))))
               (Fin 0)) r of Some v \<Rightarrow> v | None \<Rightarrow> NaN)
         = (case map_of pct r of
              None \<Rightarrow> Fin 0
            | Some p \<Rightarrow> fillna_cell (fmul p (cell pds_tam 2050 r)) (Fin 0))"
  using assms
  by (simp add: fillna_lookup series_op_lookup [OF row_labels] row_lookup fillna_cell_def
      split: option.split)

lemma fillna_cell_not_NaN: "fillna_cell x (Fin 0) \<noteq> NaN"
  by (simp add: fillna_cell_def)

lemma fmul_zero_right: "fillna_cell (fmul p (Fin 0)) (Fin 0) = Fin 0"
  by (cases p) (simp_all add: fillna_cell_def)

lemma fmul_zero_left: "fillna_cell (fmul (Fin 0) q) (Fin 0) = Fin 0"
  by (cases q) (simp_all add: fillna_cell_def)

lemma fmul_NaN_right: "fmul p NaN = NaN"
  by (cases p) simp_all

section \<open>Properties of the adoption basis and of the helper-table anchors\<close>

text \<open>
  C1. With \<open>soln_pds_adoption_basis = 'Fully Customized PDS'\<close> (as in the scenario
  'PDS-0p2050-Optimum (Book Ed.1)'), tables that have the rows read (2014 and 2050),
  a PDS market table with the ten region columns and a non-empty list of final
  percentages with distinct regions, the constructor reaches \<open>HelperTables\<close> and hands
  it the adoption data and trend of \<open>pds_ca\<close> and \<open>None\<close> as the single-source flag;
  nothing of \<open>ad\<close> enters (any other \<open>ad'\<close> gives the same arguments). For every
  region \<open>r\<close> the 2050 PDS anchor is the region's final percentage times the 2050 PDS
  market, with \<open>NaN\<close> replaced by 0.0: it is never \<open>NaN\<close>, it is 0.0 for a region the
  percentage list lacks and wherever the market is 0.0, and the plain product where
  both factors are numbers.
\<close>

theorem Nuclear_init_fully_customized_pds:
  assumes "soln_pds_adoption_basis a = ''Fully Customized PDS''"
    and "2014 \<in> set (index ref_tam)" and "2050 \<in> set (index ref_tam)"
    and "2050 \<in> set (index pds_tam)" and "set REGIONS \<subseteq> set (columns pds_tam)"
    and "pds_adoption_final_percentage a \<noteq> []"
    and "distinct (map fst (pds_adoption_final_percentage a))"
    and "r \<in> set REGIONS"
  shows "\<exists>ht. Nuclear_init_ht a ref_tam pds_tam ad pds_ca ref_ca = Inr ht
       \<and> Nuclear_init_ht a ref_tam pds_tam ad' pds_ca ref_ca = Inr ht
       \<and> pds_adoption_data_per_region ht = ca_adoption_data_per_region pds_ca
       \<and> pds_adoption_trend_per_region ht = ca_adoption_trend_per_region pds_ca
       \<and> pds_adoption_is_single_source ht = None
       \<and> (\<forall>p. (r, p) \<in> set (pds_adoption_final_percentage a) \<longrightarrow>
             loc_cell (pds_datapoints ht) 2050 r =
               Inr (fillna_cell (fmul p (cell pds_tam 2050 r)) (Fin 0)))
       \<and> (\<forall>p t. (r, Fin p) \<in> set (pds_adoption_final_percentage a)
                 \<and> cell pds_tam 2050 r = Fin t \<longrightarrow>
             loc_cell (pds_datapoints ht) 2050 r = Inr (Fin (p * t)))
       \<and> (r \<notin> fst ` set (pds_adoption_final_percentage a) \<longrightarrow>
             loc_cell (pds_datapoints ht) 2050 r = Inr (Fin 0))
       \<and> (cell pds_tam 2050 r = Fin 0 \<longrightarrow> loc_cell (pds_datapoints ht) 2050 r = Inr (Fin 0))
       \<and> loc_cell (pds_datapoints ht) 2050 r \<noteq> Inr NaN"
proof -
  let ?pct = "pds_adoption_final_percentage a"
  have chain: "pds_adoption_basis_chain a x pds_ca =
      Some (ca_adoption_data_per_region pds_ca, ca_adoption_trend_per_region pds_ca, None)"
    for x :: "'a AdoptionData"
    using assms(1) by (simp add: pds_adoption_basis_chain_def)
  note eq = Nuclear_init_ht_eval [OF assms(3) assms(2) assms(4) assms(6),
      where pds_ca = pds_ca and ref_ca = ref_ca, unfolded chain]
  define ht where "ht = projr (Nuclear_init_ht a ref_tam pds_tam ad pds_ca ref_ca)"
  have ht: "Nuclear_init_ht a ref_tam pds_tam ad pds_ca ref_ca = Inr ht"
    unfolding ht_def eq [of ad] using assms(7) by simp
  have ht': "Nuclear_init_ht a ref_tam pds_tam ad' pds_ca ref_ca = Inr ht"
    unfolding ht_def eq [of ad] eq [of ad'] using assms(7) by simp
  have rc: "r \<in> set (columns pds_tam)" using assms(5,8) by blast
  have anchor: "loc_cell (pds_datapoints ht) 2050 r =
      Inr (case map_of ?pct r of
             None \<Rightarrow> Fin 0
           | Some p \<Rightarrow> fillna_cell (fmul p (cell pds_tam 2050 r)) (Fin 0))"
    unfolding ht_def eq [of ad] using assms(7)
    by (simp add: datapoints_loc_cell(2) [OF assms(8)] pds_anchor_cell [OF rc])
  have m: "map_of ?pct r = Some p" if "(r, p) \<in> set ?pct" for p
    using that assms(7) by simp
  have n: "map_of ?pct r = None" if "r \<notin> fst ` set ?pct"
    using that by (simp add: map_of_eq_None_iff)
  have nn: "(case map_of ?pct r of
             None \<Rightarrow> Fin 0
           | Some p \<Rightarrow> fillna_cell (fmul p (cell pds_tam 2050 r)) (Fin 0)) \<noteq> NaN"
    by (simp add: fillna_cell_not_NaN split: option.split)
  have "pds_adoption_data_per_region ht = ca_adoption_data_per_region pds_ca"
    "pds_adoption_trend_per_region ht = ca_adoption_trend_per_region pds_ca"
    "pds_adoption_is_single_source ht = None"
    unfolding ht_def eq [of ad] using assms(7) by simp_all
  moreover have "\<forall>p. (r, p) \<in> set ?pct \<longrightarrow>
      loc_cell (pds_datapoints ht) 2050 r = Inr (fillna_cell (fmul p (cell pds_tam 2050 r)) (Fin 0))"
    using anchor m by simp
  moreover have "\<forall>p t. (r, Fin p) \<in> set ?pct \<and> cell pds_tam 2050 r = Fin t \<longrightarrow>
      loc_cell (pds_datapoints ht) 2050 r = Inr (Fin (p * t))"
    using anchor m by (auto simp: fillna_cell_def)
  moreover have "r \<notin> fst ` set ?pct \<longrightarrow> loc_cell (pds_datapoints ht) 2050 r = Inr (Fin 0)"
    using anchor n by simp
  moreover have "cell pds_tam 2050 r = Fin 0 \<longrightarrow> loc_cell (pds_datapoints ht) 2050 r = Inr (Fin 0)"
    using anchor by (auto simp: fmul_zero_right split: option.split)
  moreover have "loc_cell (pds_datapoints ht) 2050 r \<noteq> Inr NaN"
    using anchor nn by simp
  ultimately show ?thesis using ht ht' by blast
qed

theorem Nuclear_init_fully_customized_pds_witness:
  "\<exists>ht. Nuclear_init_ht
           \<lparr>emissions_grid_source = Member META, emissions_grid_range = Member MEAN,
            soln_ref_adoption_basis = ''Default'',
            soln_pds_adoption_basis = ''Fully Customized PDS'',
            pds_adoption_final_percentage =
              [(''World'', Fin 0.25), (''OECD90'', Fin 0), (''USA'', Fin 0)]\<rparr>
           \<lparr>index = [2014, 2050], columns = REGIONS,
            cell = (\<lambda>y c. if y = 2014 then Fin 1000 else Fin 2000)\<rparr>
           \<lparr>index = [2014, 2050], columns = REGIONS,
            cell = (\<lambda>y c. if y = 2014 then Fin 1000 else Fin 2000)\<rparr>
           \<lparr>ad_adoption_data_per_region = 1, ad_adoption_trend_per_region = 2,
            ad_adoption_is_single_source = True\<rparr>
           \<lparr>ca_adoption_data_per_region = 3, ca_adoption_trend_per_region = 4\<rparr>
           \<lparr>ca_adoption_data_per_region = 5, ca_adoption_trend_per_region = 6\<rparr> = Inr ht
     \<and> pds_adoption_data_per_region ht = (3::nat)
     \<and> pds_adoption_trend_per_region ht = 4
     \<and> pds_adoption_is_single_source ht = None
     \<and> loc_cell (pds_datapoints ht) 2050 ''World'' = Inr (Fin 500)"
proof -
  define a where "a = \<lparr>emissions_grid_source = Member META, emissions_grid_range = Member MEAN,
            soln_ref_adoption_basis = ''Default'',
            soln_pds_adoption_basis = ''Fully Customized PDS'',
            pds_adoption_final_percentage =
              [(''World'', Fin 0.25), (''OECD90'', Fin 0), (''USA'', Fin 0)]\<rparr>"
  define tam where "tam = \<lparr>index = [2014, 2050], columns = REGIONS,
            cell = (\<lambda>y c. if y = 2014 then Fin 1000 else Fin 2000)\<rparr>"
  define ad :: "nat AdoptionData" where
    "ad = \<lparr>ad_adoption_data_per_region = 1, ad_adoption_trend_per_region = 2,
            ad_adoption_is_single_source = True\<rparr>"
  define pca :: "nat CustomAdoption" where
    "pca = \<lparr>ca_adoption_data_per_region = 3, ca_adoption_trend_per_region = 4\<rparr>"
  define rca :: "nat CustomAdoption" where
    "rca = \<lparr>ca_adoption_data_per_region = 5, ca_adoption_trend_per_region = 6\<rparr>"
  have h: "soln_pds_adoption_basis a = ''Fully Customized PDS''"
    "2014 \<in> set (index tam)" "2050 \<in> set (index tam)" "2050 \<in> set (index tam)"
    "set REGIONS \<subseteq> set (columns tam)" "pds_adoption_final_percentage a \<noteq> []"
    "distinct (map fst (pds_adoption_final_percentage a))"
    by (simp_all add: a_def tam_def)
  have p: "(''World'', Fin 0.25) \<in> set (pds_adoption_final_percentage a)"
    "cell tam 2050 ''World'' = Fin 2000" "pca = pca"
    by (simp_all add: a_def tam_def)
  from Nuclear_init_fully_customized_pds [OF h World_in_REGIONS, of ad pca rca ad] p
  obtain ht where "Nuclear_init_ht a tam tam ad pca rca = Inr ht"
    "pds_adoption_data_per_region ht = ca_adoption_data_per_region pca"
    "pds_adoption_trend_per_region ht = ca_adoption_trend_per_region pca"
    "pds_adoption_is_single_source ht = None"
    "loc_cell (pds_datapoints ht) 2050 ''World'' = Inr (Fin (0.25 * 2000))"
    by blast
  then show ?thesis
    unfolding a_def tam_def ad_def pca_def rca_def by simp
qed

text \<open>
  The reference anchors that reach \<open>HelperTables\<close>, case by case. With an adoption basis
  that the constructor handles, the rows 2014 and 2050 present and a non-empty list of
  final percentages with distinct regions, for every region \<open>r\<close> with 2014 base
  adoption \<open>b\<close>: the 2014 anchor is \<open>b\<close>; the 2050 anchor is \<open>b\<close> scaled by the ratio of
  the 2050 to the 2014 reference market where both are numbers and the 2014 market is
  not zero; it is 0.0 where the 2050 market is 0.0 and where a market value is missing
  (\<open>NaN\<close>, or no column for the region); it is never \<open>NaN\<close>. Where the 2014 market is
  0.0 and the 2050 market is a nonzero number, the division gives an infinity, the
  product is that infinity, and \<open>fillna\<close> leaves it.
\<close>

lemma Nuclear_init_ref_anchor_cases:
  assumes "soln_pds_adoption_basis a = ''Fully Customized PDS''
           \<or> soln_pds_adoption_basis a = ''Existing Adoption Prognostications''"
    and "2014 \<in> set (index ref_tam)" and "2050 \<in> set (index ref_tam)"
    and "2050 \<in> set (index pds_tam)" and "pds_adoption_final_percentage a \<noteq> []"
    and "distinct (map fst (pds_adoption_final_percentage a))"
    and "r \<in> set REGIONS"
  shows "\<exists>ht b. Nuclear_init_ht a ref_tam pds_tam ad pds_ca ref_ca = Inr ht
       \<and> map_of ht_ref_adoption_initial r = Some (Fin b) \<and> 0 < b
       \<and> loc_cell (ref_datapoints ht) 2014 r = Inr (Fin b)
       \<and> (\<forall>x z. r \<in> set (columns ref_tam) \<and> cell ref_tam 2014 r = Fin x \<and> x \<noteq> 0
                 \<and> cell ref_tam 2050 r = Fin z \<longrightarrow>
             loc_cell (ref_datapoints ht) 2050 r = Inr (Fin (b * (z / x))))
       \<and> (r \<in> set (columns ref_tam) \<and> cell ref_tam 2050 r = Fin 0 \<longrightarrow>
             loc_cell (ref_datapoints ht) 2050 r = Inr (Fin 0))
       \<and> (r \<notin> set (columns ref_tam) \<or> cell ref_tam 2014 r = NaN \<or> cell ref_tam 2050 r = NaN \<longrightarrow>
             loc_cell (ref_datapoints ht) 2050 r = Inr (Fin 0))
       \<and> (\<forall>z. r \<in> set (columns ref_tam) \<and> cell ref_tam 2014 r = Fin 0
               \<and> cell ref_tam 2050 r = Fin z \<and> z \<noteq> 0 \<longrightarrow>
             loc_cell (ref_datapoints ht) 2050 r = Inr Infinite)
       \<and> loc_cell (ref_datapoints ht) 2050 r \<noteq> Inr NaN"
proof -
  from assms(1) obtain d t s where chain: "pds_adoption_basis_chain a ad pds_ca = Some (d, t, s)"
    by (auto simp: pds_adoption_basis_chain_def)
  note eq = Nuclear_init_ht_eval [OF assms(3) assms(2) assms(4) assms(5), of ad pds_ca ref_ca,
      unfolded chain]
  define ht where "ht = projr (Nuclear_init_ht a ref_tam pds_tam ad pds_ca ref_ca)"
  have ht: "Nuclear_init_ht a ref_tam pds_tam ad pds_ca ref_ca = Inr ht"
    unfolding ht_def eq using assms(6) by simp
  from initial_positive [OF assms(7)] obtain b where
    b: "map_of ht_ref_adoption_initial r = Some (Fin b)" "0 < b" by blast
  have a14: "loc_cell (ref_datapoints ht) 2014 r = Inr (Fin b)"
    unfolding ht_def eq using assms(6) by (simp add: datapoints_loc_cell(1) [OF assms(7)] b)
  have anchor: "loc_cell (ref_datapoints ht) 2050 r =
      Inr (if r \<in> set (columns ref_tam)
           then fillna_cell (fmul (cell ref_tam 2050 r) (fdiv (Fin b) (cell ref_tam 2014 r))) (Fin 0)
           else Fin 0)"
    unfolding ht_def eq using assms(6)
    by (simp add: datapoints_loc_cell(2) [OF assms(7)] ref_anchor_cell [OF assms(7) b(1)])
  have "\<forall>x z. r \<in> set (columns ref_tam) \<and> cell ref_tam 2014 r = Fin x \<and> x \<noteq> 0
                 \<and> cell ref_tam 2050 r = Fin z \<longrightarrow>
             loc_cell (ref_datapoints ht) 2050 r = Inr (Fin (b * (z / x)))"
    using anchor by (auto simp: fillna_cell_def)
  moreover have "r \<in> set (columns ref_tam) \<and> cell ref_tam 2050 r = Fin 0 \<longrightarrow>
             loc_cell (ref_datapoints ht) 2050 r = Inr (Fin 0)"
    using anchor by (auto simp: fmul_zero_left)
  moreover have "r \<notin> set (columns ref_tam) \<or> cell ref_tam 2014 r = NaN \<or> cell ref_tam 2050 r = NaN \<longrightarrow>
             loc_cell (ref_datapoints ht) 2050 r = Inr (Fin 0)"
    using anchor by (auto simp: fillna_cell_def fmul_NaN_right)
  moreover have "\<forall>z. r \<in> set (columns ref_tam) \<and> cell ref_tam 2014 r = Fin 0
               \<and> cell ref_tam 2050 r = Fin z \<and> z \<noteq> 0 \<longrightarrow>
             loc_cell (ref_datapoints ht) 2050 r = Inr Infinite"
    using anchor b(2) by (auto simp: fillna_cell_def)
  moreover have "loc_cell (ref_datapoints ht) 2050 r \<noteq> Inr NaN"
    using anchor by (simp add: fillna_cell_not_NaN)
  ultimately show ?thesis using ht b a14 by blast
qed

text \<open>
  C4. The claim wants the 2050 reference anchor to be 0.0 when the market size is
  zero, and the code replaces by 0.0 what the division leaves missing. It misses one
  case. With a 2014 reference market of 0.0 and a 2050 reference market of 1.0 for
  World (and the configuration of 'PDS-0p2050-Optimum (Book Ed.1)'), the constructor reaches
  \<open>HelperTables\<close> without a division error, and the 2050 reference anchor of World is
  an infinity: 2417.0 / 0.0 is \<open>inf\<close>, 1.0 times \<open>inf\<close> is \<open>inf\<close>, and \<open>fillna(0.0)\<close>
  replaces \<open>NaN\<close> only.
\<close>

theorem Nuclear_init_ref_anchor_zero_2014_market:
  "loc_cell \<lparr>index = [2014, 2050], columns = REGIONS,
             cell = (\<lambda>y c. if y = 2014 then Fin 0 else Fin 1)\<rparr> 2014 ''World'' = Inr (Fin 0)
   \<and> loc_cell \<lparr>index = [2014, 2050], columns = REGIONS,
             cell = (\<lambda>y c. if y = 2014 then Fin 0 else Fin 1)\<rparr> 2050 ''World'' = Inr (Fin 1)
   \<and> bind_err
        (Nuclear_init_ht
           \<lparr>emissions_grid_source = Member META, emissions_grid_range = Member MEAN,
            soln_ref_adoption_basis = ''Default'',
            soln_pds_adoption_basis = ''Fully Customized PDS'',
            pds_adoption_final_percentage =
              [(''World'', Fin 0.0), (''OECD90'', Fin 0.0), (''Eastern Europe'', Fin 0.0),
               (''Asia (Sans Japan)'', Fin 0.0), (''Middle East and Africa'', Fin 0.0),
               (''Latin America'', Fin 0.0), (''China'', Fin 0.0), (''India'', Fin 0.0),
               (''EU'', Fin 0.0), (''USA'', Fin 0.0)]\<rparr>
           \<lparr>index = [2014, 2050], columns = REGIONS,
            cell = (\<lambda>y c. if y = 2014 then Fin 0 else Fin 1)\<rparr>
           \<lparr>index = [2014, 2050], columns = REGIONS,
            cell = (\<lambda>y c. if y = 2014 then Fin 0 else Fin 1)\<rparr>
           \<lparr>ad_adoption_data_per_region = 1, ad_adoption_trend_per_region = 2,
            ad_adoption_is_single_source = True\<rparr>
           \<lparr>ca_adoption_data_per_region = 3, ca_adoption_trend_per_region = 4\<rparr>
           \<lparr>ca_adoption_data_per_region = 5, ca_adoption_trend_per_region = (6::nat)\<rparr>)
        (\<lambda>ht. loc_cell (ref_datapoints ht) 2050 ''World'') = Inr Infinite"
proof -
  define a where "a = \<lparr>emissions_grid_source = Member META, emissions_grid_range = Member MEAN,
            soln_ref_adoption_basis = ''Default'',
            soln_pds_adoption_basis = ''Fully Customized PDS'',
            pds_adoption_final_percentage =
              [(''World'', Fin 0.0), (''OECD90'', Fin 0.0), (''Eastern Europe'', Fin 0.0),
               (''Asia (Sans Japan)'', Fin 0.0), (''Middle East and Africa'', Fin 0.0),
               (''Latin America'', Fin 0.0), (''China'', Fin 0.0), (''India'', Fin 0.0),
               (''EU'', Fin 0.0), (''USA'', Fin 0.0)]\<rparr>"
  define tam where "tam = \<lparr>index = [2014, 2050], columns = REGIONS,
            cell = (\<lambda>y c. if y = 2014 then Fin 0 else Fin 1)\<rparr>"
  define ad :: "nat AdoptionData" where
    "ad = \<lparr>ad_adoption_data_per_region = 1, ad_adoption_trend_per_region = 2,
            ad_adoption_is_single_source = True\<rparr>"
  define pca :: "nat CustomAdoption" where
    "pca = \<lparr>ca_adoption_data_per_region = 3, ca_adoption_trend_per_region = 4\<rparr>"
  define rca :: "nat CustomAdoption" where
    "rca = \<lparr>ca_adoption_data_per_region = 5, ca_adoption_trend_per_region = 6\<rparr>"
  have rows: "2050 \<in> set (index tam)" "2014 \<in> set (index tam)" "2050 \<in> set (index tam)"
    "pds_adoption_final_percentage a \<noteq> []"
    by (simp_all add: a_def tam_def)
  have d: "distinct (map fst (pds_adoption_final_percentage a))"
    by (simp add: a_def)
  have chain: "pds_adoption_basis_chain a ad pca = Some (3, 4, None)"
    by (simp add: pds_adoption_basis_chain_def a_def pca_def)
  have c: "''World'' \<in> set (columns tam)" "cell tam 2014 ''World'' = Fin 0"
    "cell tam 2050 ''World'' = Fin 1"
    by (simp_all add: tam_def World_in_REGIONS)
  have "loc_cell tam 2014 ''World'' = Inr (Fin 0)" "loc_cell tam 2050 ''World'' = Inr (Fin 1)"
    by (simp_all add: loc_cell_def tam_def World_in_REGIONS)
  moreover have "bind_err (Nuclear_init_ht a tam tam ad pca rca)
          (\<lambda>ht. loc_cell (ref_datapoints ht) 2050 ''World'') = Inr Infinite"
    unfolding Nuclear_init_ht_eval [OF rows, of ad pca rca, unfolded chain] using d
    by (simp add: datapoints_loc_cell(2) [OF World_in_REGIONS]
        ref_anchor_cell [OF World_in_REGIONS initial_values(1)] c fillna_cell_def)
  ultimately show ?thesis
    unfolding a_def tam_def ad_def pca_def rca_def by simp
qed

text \<open>
  C9, as the code has it. With a \<open>soln_pds_adoption_basis\<close> that is neither 'Fully
  Customized PDS' nor 'Existing Adoption Prognostications', tables that have the rows
  read (2014 and 2050) and a non-empty list of final percentages with distinct
  regions, the constructor ends where the arguments of \<open>HelperTables\<close> are evaluated,
  with the \<open>UnboundLocalError\<close> for \<open>pds_adoption_data_per_region\<close>: the chain on the
  basis has no \<open>else\<close> and no \<open>raise\<close>. No \<open>HelperTables\<close> and no \<open>Nuclear\<close> object is
  built.
\<close>

theorem Nuclear_init_unhandled_adoption_basis:
  assumes "soln_pds_adoption_basis a \<noteq> ''Fully Customized PDS''"
    and "soln_pds_adoption_basis a \<noteq> ''Existing Adoption Prognostications''"
    and "2014 \<in> set (index ref_tam)" and "2050 \<in> set (index ref_tam)"
    and "2050 \<in> set (index pds_tam)" and "pds_adoption_final_percentage a \<noteq> []"
    and "distinct (map fst (pds_adoption_final_percentage a))"
  shows "Nuclear_init_ht a ref_tam pds_tam ad pds_ca ref_ca =
           Inl (UnboundLocalError ''pds_adoption_data_per_region'')"
proof -
  from assms(1,2) have chain: "pds_adoption_basis_chain a ad pds_ca = None"
    by (simp add: pds_adoption_basis_chain_def)
  show ?thesis
    unfolding Nuclear_init_ht_eval [OF assms(4) assms(3) assms(5) assms(6)] chain
    using assms(7) by simp
qed

theorem Nuclear_init_unhandled_adoption_basis_witness:
  "Nuclear_init_ht
     \<lparr>emissions_grid_source = Member META, emissions_grid_range = Member MEAN,
      soln_ref_adoption_basis = ''Default'',
      soln_pds_adoption_basis = ''Linear'',
      pds_adoption_final_percentage =
        [(''World'', Fin 0), (''OECD90'', Fin 0), (''USA'', Fin 0)]\<rparr>
     \<lparr>index = [2014, 2050], columns = REGIONS,
      cell = (\<lambda>y c. if y = 2014 then Fin 1000 else Fin 2000)\<rparr>
     \<lparr>index = [2014, 2050], columns = REGIONS,
      cell = (\<lambda>y c. if y = 2014 then Fin 1000 else Fin 2000)\<rparr>
     \<lparr>ad_adoption_data_per_region = 1, ad_adoption_trend_per_region = 2,
      ad_adoption_is_single_source = True\<rparr>
     \<lparr>ca_adoption_data_per_region = 3, ca_adoption_trend_per_region = 4\<rparr>
     \<lparr>ca_adoption_data_per_region = 5, ca_adoption_trend_per_region = (6::nat)\<rparr>
   = Inl (UnboundLocalError ''pds_adoption_data_per_region'')"
proof -
  define a where "a = \<lparr>emissions_grid_source = Member META, emissions_grid_range = Member MEAN,
      soln_ref_adoption_basis = ''Default'',
      soln_pds_adoption_basis = ''Linear'',
      pds_adoption_final_percentage =
        [(''World'', Fin 0), (''OECD90'', Fin 0), (''USA'', Fin 0)]\<rparr>"
  define tam where "tam = \<lparr>index = [2014, 2050], columns = REGIONS,
      cell = (\<lambda>y c. if y = 2014 then Fin 1000 else Fin 2000)\<rparr>"
  have h: "soln_pds_adoption_basis a \<noteq> ''Fully Customized PDS''"
    "soln_pds_adoption_basis a \<noteq> ''Existing Adoption Prognostications''"
    "2014 \<in> set (index tam)" "2050 \<in> set (index tam)" "2050 \<in> set (index tam)"
    "pds_adoption_final_percentage a \<noteq> []"
    "distinct (map fst (pds_adoption_final_percentage a))"
    by (simp_all add: a_def tam_def)
  from Nuclear_init_unhandled_adoption_basis [OF h]
  show ?thesis unfolding a_def tam_def .
qed

text \<open>
  C9 as stated fails: with the basis 'Customized S-Curve Adoption' the constructor ends
  with \<open>UnboundLocalError\<close>, which is no \<open>ValueError\<close> and so no error that the code
  raises on purpose for a configuration.
\<close>

theorem Nuclear_init_unhandled_adoption_basis_counterexample:
  "Nuclear_init_ht
     \<lparr>emissions_grid_source = Member META, emissions_grid_range = Member MEAN,
      soln_ref_adoption_basis = ''Default'',
      soln_pds_adoption_basis = ''Customized S-Curve Adoption'',
      pds_adoption_final_percentage =
        [(''World'', Fin 0), (''OECD90'', Fin 0), (''USA'', Fin 0)]\<rparr>
     \<lparr>index = [2014, 2050], columns = REGIONS,
      cell = (\<lambda>y c. if y = 2014 then Fin 1000 else Fin 2000)\<rparr>
     \<lparr>index = [2014, 2050], columns = REGIONS,
      cell = (\<lambda>y c. if y = 2014 then Fin 1000 else Fin 2000)\<rparr>
     \<lparr>ad_adoption_data_per_region = 1, ad_adoption_trend_per_region = 2,
      ad_adoption_is_single_source = True\<rparr>
     \<lparr>ca_adoption_data_per_region = 3, ca_adoption_trend_per_region = 4\<rparr>
     \<lparr>ca_adoption_data_per_region = 5, ca_adoption_trend_per_region = (6::nat)\<rparr>
   = Inl (UnboundLocalError ''pds_adoption_data_per_region'')
   \<and> \<not> is_ValueError (UnboundLocalError ''pds_adoption_data_per_region'')"
proof -
  define a where "a = \<lparr>emissions_grid_source = Member META, emissions_grid_range = Member MEAN,
      soln_ref_adoption_basis = ''Default'',
      soln_pds_adoption_basis = ''Customized S-Curve Adoption'',
      pds_adoption_final_percentage =
        [(''World'', Fin 0), (''OECD90'', Fin 0), (''USA'', Fin 0)]\<rparr>"
  define tam where "tam = \<lparr>index = [2014, 2050], columns = REGIONS,
      cell = (\<lambda>y c. if y = 2014 then Fin 1000 else Fin 2000)\<rparr>"
  define ad :: "nat AdoptionData" where
    "ad = \<lparr>ad_adoption_data_per_region = 1, ad_adoption_trend_per_region = 2,
            ad_adoption_is_single_source = True\<rparr>"
  define pca :: "nat CustomAdoption" where
    "pca = \<lparr>ca_adoption_data_per_region = 3, ca_adoption_trend_per_region = 4\<rparr>"
  define rca :: "nat CustomAdoption" where
    "rca = \<lparr>ca_adoption_data_per_region = 5, ca_adoption_trend_per_region = 6\<rparr>"
  have rows: "2050 \<in> set (index tam)" "2014 \<in> set (index tam)" "2050 \<in> set (index tam)"
    "pds_adoption_final_percentage a \<noteq> []"
    by (simp_all add: a_def tam_def)
  have d: "distinct (map fst (pds_adoption_final_percentage a))"
    by (simp add: a_def)
  have chain: "pds_adoption_basis_chain a ad pca = None"
    by (simp add: pds_adoption_basis_chain_def a_def)
  have "Nuclear_init_ht a tam tam ad pca rca
          = Inl (UnboundLocalError ''pds_adoption_data_per_region'')"
    unfolding Nuclear_init_ht_eval [OF rows, of ad pca rca] chain using d by simp
  then show ?thesis
    unfolding a_def tam_def ad_def pca_def rca_def by simp
qed

end
